theory Spec2Isabelle
  imports Complex_Main "HOL-Library.AList" "HOL-Library.Char_ord" "HOL-Library.List_Lexorder"
begin

section \<open>Values of the host language\<close>

text \<open>
  A JavaScript \<open>number\<close> that carries money or a quantity is modelled as an exact
  rational: the model has the arithmetic of the source (\<open>+\<close>, \<open>-\<close>, \<open>*\<close>,
  \<open>Math.max\<close>) without IEEE rounding. A number that is NaN where the source can
  produce one (date parsing) is \<open>None\<close> of an option type.

  A JavaScript \<open>Map\<close> keeps its entries in insertion order, \<open>set\<close> on an existing
  key replaces the value in place and \<open>set\<close> on a new key appends: an association
  list with \<open>AList.update\<close>, \<open>AList.delete\<close> and \<open>map_of\<close>.
\<close>

type_synonym number = rat

type_synonym 'a jsMap = "(string \<times> 'a) list"

definition values_of :: "'a jsMap \<Rightarrow> 'a list" where
  "values_of m = map snd m"

definition has_key :: "'a jsMap \<Rightarrow> string \<Rightarrow> bool" where
  "has_key m k = (k \<in> set (map fst m))"

subsection \<open>Strings and numbers\<close>

text \<open>\<open>String.prototype.split\<close> with a one-character separator.\<close>

fun split_on :: "char \<Rightarrow> string \<Rightarrow> string list" where
  "split_on c [] = [[]]"
| "split_on c (x # xs) =
     (if x = c then [] # split_on c xs
      else (case split_on c xs of
              [] \<Rightarrow> [[x]]
            | w # ws \<Rightarrow> (x # w) # ws))"

definition is_digit :: "char \<Rightarrow> bool" where
  "is_digit c = (CHR ''0'' \<le> c \<and> c \<le> CHR ''9'')"

definition digit_val :: "char \<Rightarrow> int" where
  "digit_val c = int (of_char c) - 48"

text \<open>
  \<open>Number(s)\<close> on the strings a date is made of: the empty string is 0 and a string of
  decimal digits is its value. Every other string is NaN here; the source's \<open>Number\<close>
  also reads signs, fractions, exponents, radix prefixes and surrounding white space,
  which no calendar date in ISO form contains.
\<close>

definition Number_of :: "string \<Rightarrow> int option" where
  "Number_of s =
     (if list_all is_digit s then Some (foldl (\<lambda>acc c. 10 * acc + digit_val c) 0 s)
      else None)"

text \<open>Array destructuring: a missing element is \<open>undefined\<close>, which is NaN in arithmetic.\<close>

definition element :: "int option list \<Rightarrow> nat \<Rightarrow> int option" where
  "element xs i = (if i < length xs then xs ! i else None)"

definition digit_char :: "nat \<Rightarrow> char" where
  "digit_char n = char_of (48 + n)"

fun digits_of :: "nat \<Rightarrow> string" where
  "digits_of n = (if n < 10 then [digit_char n] else digits_of (n div 10) @ [digit_char (n mod 10)])"

declare digits_of.simps [simp del]

text \<open>\<open>String(n)\<close> for an integral number or NaN.\<close>

definition String_of :: "int option \<Rightarrow> string" where
  "String_of v =
     (case v of
        None \<Rightarrow> ''NaN''
      | Some n \<Rightarrow> (if n < 0 then CHR ''-'' # digits_of (nat (- n)) else digits_of (nat n)))"

definition padStart :: "nat \<Rightarrow> char \<Rightarrow> string \<Rightarrow> string" where
  "padStart n c s = replicate (n - length s) c @ s"

text \<open>\<open>Math.min\<close> of two numbers, NaN if either is.\<close>

definition Math_min :: "int option \<Rightarrow> int option \<Rightarrow> int option" where
  "Math_min a b = (case (a, b) of (Some x, Some y) \<Rightarrow> Some (min x y) | _ \<Rightarrow> None)"

subsection \<open>The Date object\<close>

text \<open>
  \<open>new Date(year, monthIndex, day)\<close> and its getters, in local time. ECMAScript
  computes the day number of the first of the month (\<open>MakeDay\<close>: the year is carried
  by \<open>monthIndex div 12\<close>), adds \<open>day - 1\<close>, and the getters read the civil date of
  that day number back, so a day past the end of the month rolls over into the next
  month. Years 0 to 99 mean 1900 to 1999. A date more than \<open>10^8\<close> days from the epoch
  is invalid and all its getters are NaN. Constructor and getters use the same time
  zone, so the zone cancels (a zone that skips a whole calendar day apart).
  A date is its day number since 1970-01-01, \<open>None\<close> when invalid.
\<close>

definition daysFromCivil :: "int \<Rightarrow> int \<Rightarrow> int \<Rightarrow> int" where
  "daysFromCivil y m d =
     (let y1 = (if m \<le> 2 then y - 1 else y);
          era = y1 div 400;
          yoe = y1 - era * 400;
          doy = (153 * (m + (if m > 2 then - 3 else 9)) + 2) div 5 + d - 1;
          doe = yoe * 365 + yoe div 4 - yoe div 100 + doy
      in era * 146097 + doe - 719468)"

definition civilFromDays :: "int \<Rightarrow> int \<times> int \<times> int" where
  "civilFromDays z =
     (let z1 = z + 719468;
          era = z1 div 146097;
          doe = z1 - era * 146097;
          yoe = (doe - doe div 1460 + doe div 36524 - doe div 146096) div 365;
          y = yoe + era * 400;
          doy = doe - (365 * yoe + yoe div 4 - yoe div 100);
          mp = (5 * doy + 2) div 153;
          d = doy - (153 * mp + 2) div 5 + 1;
          m = (if mp < 10 then mp + 3 else mp - 9)
      in (if m \<le> 2 then y + 1 else y, m, d))"

definition new_Date :: "int option \<Rightarrow> int option \<Rightarrow> int option \<Rightarrow> int option" where
  "new_Date year monthIndex day =
     (case (year, monthIndex, day) of
        (Some y, Some m, Some d) \<Rightarrow>
          (let yr = (if 0 \<le> y \<and> y \<le> 99 then 1900 + y else y);
               t = daysFromCivil (yr + m div 12) (m mod 12 + 1) 1 + d - 1
           in if \<bar>t\<bar> \<le> 100000000 then Some t else None)
      | _ \<Rightarrow> None)"

definition getFullYear :: "int option \<Rightarrow> int option" where
  "getFullYear date = map_option (\<lambda>t. fst (civilFromDays t)) date"

definition getMonth :: "int option \<Rightarrow> int option" where
  "getMonth date = map_option (\<lambda>t. fst (snd (civilFromDays t)) - 1) date"

definition getDate :: "int option \<Rightarrow> int option" where
  "getDate date = map_option (\<lambda>t. snd (snd (civilFromDays t))) date"

subsection \<open>addMonthsISO\<close>

text \<open>
  \<^verbatim>\<open>
  function addMonthsISO(start: string, months: number): string {
    const [y, m, d] = start.split("-").map(Number);
    const date = new Date(y, m - 1 + months, d || 1);
    const yyyy = date.getFullYear();
    const mm = String(date.getMonth() + 1).padStart(2, "0");
    const dd = String(
      Math.min(d || 1, new Date(yyyy, date.getMonth() + 1, 0).getDate()),
    ).padStart(2, "0");
    return `${yyyy}-${mm}-${dd}`;
  }
  \<close>
  \<open>d || 1\<close> is 1 when \<open>d\<close> is 0, NaN or undefined.
\<close>

definition or_one :: "int option \<Rightarrow> int option" where
  "or_one d = (case d of None \<Rightarrow> Some 1 | Some v \<Rightarrow> (if v = 0 then Some 1 else Some v))"

definition plus_num :: "int option \<Rightarrow> int \<Rightarrow> int option" where
  "plus_num a k = map_option (\<lambda>v. v + k) a"

definition addMonthsISO :: "string \<Rightarrow> int \<Rightarrow> string" where
  "addMonthsISO start months =
     (let parts = map Number_of (split_on CHR ''-'' start);
          y = element parts 0;
          m = element parts 1;
          d = element parts 2;
          date = new_Date y (plus_num m (- 1 + months)) (or_one d);
          yyyy = getFullYear date;
          mm = padStart 2 CHR ''0'' (String_of (plus_num (getMonth date) 1));
          dd = padStart 2 CHR ''0''
                 (String_of (Math_min (or_one d)
                    (getDate (new_Date yyyy (plus_num (getMonth date) 1) (Some 0)))))
      in String_of yyyy @ ''-'' @ mm @ ''-'' @ dd)"

section \<open>Data model\<close>

text \<open>The entities of \<open>@shared/accounting\<close>, one record per interface.\<close>

datatype TransType = Revenue | Expense | Salaries

datatype MovementKind = KindIn | KindOut

datatype ProjectCostType = Construction | Operation | ExpenseCost | Other

text \<open>
  The label \<open>projectCostTypeLabel\<close> returns, and the descriptions the store derives
  for its ledger entries. The source renders them as Arabic text from a template
  literal; the model keeps the template and its arguments.
\<close>

datatype CostLabel =
    LabelConstruction | LabelOperation | LabelExpense | LabelCustom string | LabelOther

datatype Description =
    Plain string
  | PurchaseDescription string string number string number
  | IssueDescription string string number string number
  | CostDescription CostLabel string
  | InstallmentSaleDescription string string
  | CashSaleDescription string string string
  | InstallmentPaymentDescription string string

record Transaction =
  t_id :: string
  t_date :: string
  t_type :: TransType
  t_description :: Description
  t_amount :: number
  t_approved :: bool
  t_createdBy :: "string option"
  t_createdAt :: "string option"

record InventoryItem =
  it_id :: string
  it_name :: string
  it_updatedAt :: string
  it_quantity :: number
  it_unit :: string
  it_min :: number

record Movement =
  mv_id :: string
  mv_itemId :: string
  mv_kind :: MovementKind
  mv_qty :: number
  mv_unitPrice :: number
  mv_total :: number
  mv_party :: string
  mv_date :: string

record Project =
  p_id :: string
  p_name :: string
  p_location :: string
  p_floors :: number
  p_units :: number
  p_createdAt :: string

record ProjectCost =
  c_id :: string
  c_projectId :: string
  c_type :: ProjectCostType
  c_customTypeLabel :: "string option"
  c_amount :: number
  c_date :: string
  c_note :: string

record ProjectSale =
  s_id :: string
  s_projectId :: string
  s_unitNo :: string
  s_buyer :: string
  s_price :: number
  s_date :: string
  s_terms :: "string option"
  s_area :: "string option"
  s_paymentMethod :: "string option"

record Installment =
  i_id :: string
  i_projectId :: string
  i_saleId :: string
  i_unitNo :: string
  i_buyer :: string
  i_amount :: number
  i_dueDate :: string
  i_paid :: bool
  i_paidAt :: "string option"

text \<open>A row of the table \<open>installment_reminders\<close>.\<close>

record Reminder =
  r_id :: string
  r_installmentId :: string
  r_note :: "string option"
  r_sentAt :: string

subsection \<open>Inputs and results of the store operations\<close>

record TransactionCreateInput =
  tci_date :: string
  tci_type :: TransType
  tci_description :: Description
  tci_amount :: number
  tci_approved :: bool
  tci_createdBy :: "string option"

record InventoryItemCreateInput =
  iic_name :: string
  iic_quantity :: number
  iic_unit :: string
  iic_min :: number
  iic_updatedAt :: string

record InventoryReceiptInput =
  rc_itemId :: string
  rc_qty :: number
  rc_unitPrice :: number
  rc_supplier :: string
  rc_date :: string
  rc_approved :: bool
  rc_createdBy :: "string option"

record InventoryIssueInput =
  is_itemId :: string
  is_qty :: number
  is_unitPrice :: number
  is_project :: string
  is_date :: string
  is_approved :: bool
  is_createdBy :: "string option"

record InventoryMovementResult =
  res_item :: InventoryItem
  res_movement :: Movement
  res_transaction :: Transaction

record ProjectCreateInput =
  pc_name :: string
  pc_location :: string
  pc_floors :: number
  pc_units :: number
  pc_createdAt :: string

record ProjectCostCreateInput =
  cc_projectId :: string
  cc_projectName :: string
  cc_type :: ProjectCostType
  cc_customTypeLabel :: "string option"
  cc_amount :: number
  cc_date :: string
  cc_note :: string
  cc_approved :: bool
  cc_createdBy :: "string option"

record ProjectCostCreateResult =
  ccr_cost :: ProjectCost
  ccr_transaction :: Transaction

record ProjectSaleCreateInput =
  sc_projectId :: string
  sc_projectName :: string
  sc_unitNo :: string
  sc_buyer :: string
  sc_price :: number
  sc_date :: string
  sc_terms :: "string option"
  sc_area :: "string option"
  sc_paymentMethod :: "string option"
  sc_downPayment :: "number option"
  sc_monthlyAmount :: "number option"
  sc_months :: "number option"
  sc_firstDueDate :: "string option"
  sc_approved :: bool
  sc_createdBy :: "string option"

record ProjectSaleCreateResult =
  scr_sale :: ProjectSale
  scr_transaction :: Transaction
  scr_installments :: "Installment list option"

record InstallmentParams =
  ip_projectId :: string
  ip_saleId :: string
  ip_unitNo :: string
  ip_buyer :: string
  ip_monthlyAmount :: number
  ip_months :: number
  ip_firstDueDate :: string

record PayInstallmentParams =
  pay_id :: string
  pay_date :: string
  pay_approved :: bool
  pay_createdBy :: "string option"

record PayInstallmentResult =
  pr_installment :: Installment
  pr_transaction :: Transaction

section \<open>The state of the store\<close>

text \<open>
  \<open>fallbackStore\<close> is the module-level object of in-memory maps. The database is one
  association list per table, keyed by the primary key \<open>id\<close>, rows in insertion
  order; a row is the record of the entity it maps to (the \<open>created_at\<close> columns that
  no operation below reads are left out, the \<open>note\<close> column of \<open>project_costs\<close>
  holds the note and the custom label that \<open>serializeProjectCostNote\<close> packs into it,
  and the accounts table that \<open>created_by\<close> refers to is not part of the model).
  The database stores every value as it is given.

  The backend is fixed for the life of the process:
  \<^item> \<open>NoPool\<close>: \<open>getMysqlPool()\<close> and \<open>getInitializedMysqlPool()\<close> are null;
  \<^item> \<open>Unreachable\<close>: a pool object exists but initialisation failed, so
    \<open>getInitializedMysqlPool()\<close> is null and every query on the pool rejects;
  \<^item> \<open>Ready db\<close>: both return the pool, and every query runs on \<open>db\<close>.
\<close>

record fallbackStore =
  transactions :: "Transaction jsMap"
  items :: "InventoryItem jsMap"
  movements :: "Movement jsMap"
  projects :: "Project jsMap"
  costs :: "ProjectCost jsMap"
  sales :: "ProjectSale jsMap"
  installments :: "Installment jsMap"

record database =
  tbl_transactions :: "Transaction jsMap"
  tbl_inventory_items :: "InventoryItem jsMap"
  tbl_inventory_movements :: "Movement jsMap"
  tbl_projects :: "Project jsMap"
  tbl_project_costs :: "ProjectCost jsMap"
  tbl_project_sales :: "ProjectSale jsMap"
  tbl_project_installments :: "Installment jsMap"
  tbl_installment_reminders :: "Reminder jsMap"

datatype backend = NoPool | Unreachable | Ready database

record state =
  mem :: fallbackStore
  pool :: backend

definition getInitializedMysqlPool :: "state \<Rightarrow> database option" where
  "getInitializedMysqlPool st = (case pool st of Ready db \<Rightarrow> Some db | _ \<Rightarrow> None)"

text \<open>
  Every \<open>throw\<close> of the store is a value: the four not-found errors carry the message
  of the source, \<open>ConstraintViolation\<close> is a statement the database rejects (a
  duplicate primary key, a foreign key without its parent row), and \<open>NoRow\<close> is the
  \<open>TypeError\<close> of a row mapper applied to \<open>rows[0]\<close> when the \<open>SELECT\<close> after an
  \<open>INSERT\<close> returned nothing.
\<close>

datatype error =
    TransactionNotFound
  | InventoryItemNotFound
  | ProjectNotFound
  | InstallmentNotFound
  | ConstraintViolation
  | NoRow

subsection \<open>SQL statements on a table\<close>

definition sql_insert :: "string \<Rightarrow> 'a \<Rightarrow> 'a jsMap \<Rightarrow> error + 'a jsMap" where
  "sql_insert k row tbl =
     (if has_key tbl k then Inl ConstraintViolation else Inr (tbl @ [(k, row)]))"

definition sql_update :: "string \<Rightarrow> ('a \<Rightarrow> 'a) \<Rightarrow> 'a jsMap \<Rightarrow> 'a jsMap" where
  "sql_update k f tbl = map (\<lambda>(k', row). if k' = k then (k', f row) else (k', row)) tbl"

definition sql_delete_where :: "('a \<Rightarrow> bool) \<Rightarrow> 'a jsMap \<Rightarrow> 'a jsMap" where
  "sql_delete_where P tbl = filter (\<lambda>(k, row). \<not> P row) tbl"

subsection \<open>Row mappers\<close>

text \<open>
  The mappers turn a row into the entity: \<open>asNumber\<close>, \<open>asBoolean\<close> and
  \<open>formatTimestamp\<close> leave a number, a flag and a string as they are, and
  \<open>formatDate\<close> cuts a date string to its first ten characters.
  \<open>mapInstallmentRow\<close> is the mapper the source writes inline wherever it reads
  \<open>project_installments\<close>.
\<close>

definition formatDate :: "string \<Rightarrow> string" where
  "formatDate v = (if length v \<ge> 10 then take 10 v else v)"

definition mapTransactionRow :: "Transaction \<Rightarrow> Transaction" where
  "mapTransactionRow row = row\<lparr>t_date := formatDate (t_date row)\<rparr>"

definition mapInventoryItemRow :: "InventoryItem \<Rightarrow> InventoryItem" where
  "mapInventoryItemRow row = row"

definition mapMovementRow :: "Movement \<Rightarrow> Movement" where
  "mapMovementRow row = row\<lparr>mv_date := formatDate (mv_date row)\<rparr>"

definition mapProjectRow :: "Project \<Rightarrow> Project" where
  "mapProjectRow row = row"

definition mapProjectCostRow :: "ProjectCost \<Rightarrow> ProjectCost" where
  "mapProjectCostRow row = row\<lparr>c_date := formatDate (c_date row)\<rparr>"

definition mapProjectSaleRow :: "ProjectSale \<Rightarrow> ProjectSale" where
  "mapProjectSaleRow row = row\<lparr>s_date := formatDate (s_date row)\<rparr>"

definition mapInstallmentRow :: "Installment \<Rightarrow> Installment" where
  "mapInstallmentRow row = row\<lparr>i_dueDate := formatDate (i_dueDate row)\<rparr>"

section \<open>Ledger transactions\<close>

text \<open>
  Each operation takes what the source draws from its environment as arguments: the
  identifiers \<open>crypto.randomUUID()\<close> returns, in the order of the calls, and the
  clock (\<open>new Date().toISOString()\<close>, \<open>CURRENT_TIMESTAMP\<close>). An operation returns
  its result or its error together with the state it leaves. Where the source runs
  SQL between \<open>beginTransaction\<close> and \<open>commit\<close> and rolls back in \<open>catch\<close>, an
  error leaves the database as it was.

  The source writes both branches of an operation in one function,
  \<open>if (!pool) { ... in memory ... } ... SQL ...\<close>; the model names the first branch
  \<open>_mem\<close> and the second \<open>_db\<close>.
\<close>

definition bind_err :: "error + 'a \<Rightarrow> ('a \<Rightarrow> error + 'b) \<Rightarrow> error + 'b" where
  "bind_err m f = (case m of Inl e \<Rightarrow> Inl e | Inr x \<Rightarrow> f x)"

text \<open>
  Lifting a branch to the whole state. A failed in-memory branch has written nothing
  when it throws; a failed SQL branch is rolled back.
\<close>

definition on_mem :: "state \<Rightarrow> error + ('a \<times> fallbackStore) \<Rightarrow> (error + 'a) \<times> state" where
  "on_mem st r = (case r of Inl e \<Rightarrow> (Inl e, st) | Inr (x, m) \<Rightarrow> (Inr x, st\<lparr>mem := m\<rparr>))"

definition on_db :: "state \<Rightarrow> error + ('a \<times> database) \<Rightarrow> (error + 'a) \<times> state" where
  "on_db st r = (case r of Inl e \<Rightarrow> (Inl e, st) | Inr (x, db) \<Rightarrow> (Inr x, st\<lparr>pool := Ready db\<rparr>))"

subsection \<open>Transactions\<close>

definition new_transaction :: "string \<Rightarrow> string \<Rightarrow> TransactionCreateInput \<Rightarrow> Transaction" where
  "new_transaction uuid now input =
     \<lparr>t_id = uuid, t_date = tci_date input, t_type = tci_type input,
      t_description = tci_description input, t_amount = tci_amount input,
      t_approved = tci_approved input, t_createdBy = tci_createdBy input,
      t_createdAt = Some now\<rparr>"

definition createTransactionFallback ::
  "fallbackStore \<Rightarrow> string \<Rightarrow> string \<Rightarrow> TransactionCreateInput \<Rightarrow> Transaction \<times> fallbackStore" where
  "createTransactionFallback m uuid now input =
     (let transaction = new_transaction uuid now input
      in (transaction,
          m\<lparr>transactions := AList.update (t_id transaction) transaction (transactions m)\<rparr>))"

text \<open>\<open>INSERT INTO transactions\<close>, then the row is read back by its id and mapped.\<close>

definition insertTransactionDb ::
  "database \<Rightarrow> string \<Rightarrow> string \<Rightarrow> TransactionCreateInput \<Rightarrow> error + (Transaction \<times> database)" where
  "insertTransactionDb db uuid now input =
     bind_err (sql_insert uuid (new_transaction uuid now input) (tbl_transactions db)) (\<lambda>tbl.
       (case map_of tbl uuid of
          None \<Rightarrow> Inl NoRow
        | Some row \<Rightarrow> Inr (mapTransactionRow row, db\<lparr>tbl_transactions := tbl\<rparr>)))"

definition createTransaction ::
  "state \<Rightarrow> string \<Rightarrow> string \<Rightarrow> TransactionCreateInput \<Rightarrow> (error + Transaction) \<times> state" where
  "createTransaction st uuid now input =
     (case getInitializedMysqlPool st of
        None \<Rightarrow> on_mem st (Inr (createTransactionFallback (mem st) uuid now input))
      | Some db \<Rightarrow> on_db st (insertTransactionDb db uuid now input))"

definition approveTransaction :: "state \<Rightarrow> string \<Rightarrow> (error + Transaction) \<times> state" where
  "approveTransaction st ident =
     (case getInitializedMysqlPool st of
        None \<Rightarrow>
          on_mem st
            (case map_of (transactions (mem st)) ident of
               None \<Rightarrow> Inl TransactionNotFound
             | Some existing \<Rightarrow>
                 (let updated = existing\<lparr>t_approved := True\<rparr>
                  in Inr (updated,
                          (mem st)\<lparr>transactions := AList.update ident updated (transactions (mem st))\<rparr>)))
      | Some db \<Rightarrow>
          on_db st
            (let tbl = sql_update ident (\<lambda>row. row\<lparr>t_approved := True\<rparr>) (tbl_transactions db)
             in (case map_of tbl ident of
                   None \<Rightarrow> Inl TransactionNotFound
                 | Some row \<Rightarrow> Inr (mapTransactionRow row, db\<lparr>tbl_transactions := tbl\<rparr>))))"

definition deleteTransaction :: "state \<Rightarrow> string \<Rightarrow> (error + unit) \<times> state" where
  "deleteTransaction st ident =
     (case getInitializedMysqlPool st of
        None \<Rightarrow>
          on_mem st
            (if \<not> has_key (transactions (mem st)) ident then Inl TransactionNotFound
             else Inr ((), (mem st)\<lparr>transactions := AList.delete ident (transactions (mem st))\<rparr>))
      | Some db \<Rightarrow>
          on_db st (Inr ((), db\<lparr>tbl_transactions := AList.delete ident (tbl_transactions db)\<rparr>)))"

subsection \<open>Inventory\<close>

definition createInventoryItem ::
  "state \<Rightarrow> string \<Rightarrow> InventoryItemCreateInput \<Rightarrow> (error + InventoryItem) \<times> state" where
  "createInventoryItem st uuid input =
     (let item = \<lparr>it_id = uuid, it_name = iic_name input, it_updatedAt = iic_updatedAt input,
                  it_quantity = iic_quantity input, it_unit = iic_unit input,
                  it_min = iic_min input\<rparr>
      in case getInitializedMysqlPool st of
           None \<Rightarrow>
             on_mem st (Inr (item, (mem st)\<lparr>items := AList.update (it_id item) item (items (mem st))\<rparr>))
         | Some db \<Rightarrow>
             on_db st
               (bind_err (sql_insert uuid item (tbl_inventory_items db)) (\<lambda>tbl.
                  (case map_of tbl uuid of
                     None \<Rightarrow> Inl NoRow
                   | Some row \<Rightarrow> Inr (mapInventoryItemRow row, db\<lparr>tbl_inventory_items := tbl\<rparr>)))))"

text \<open>
  \<^verbatim>\<open>
  export async function deleteInventoryItem(id: string): Promise<void> {
    const pool = await getInitializedMysqlPool();
    if (!pool) {
      fallbackStore.items.delete(id);
      for (const movement of fallbackStore.movements.values()) {
        if (movement.itemId === id) fallbackStore.movements.delete(movement.id);
      }
      return;
    }
    await pool.query(`DELETE FROM inventory_items WHERE id = ?`, [id]);
  }
  \<close>
  In the database the movements of the item go with it
  (\<open>FOREIGN KEY (item_id) REFERENCES inventory_items(id) ON DELETE CASCADE\<close>).
\<close>

definition deleteInventoryItem :: "state \<Rightarrow> string \<Rightarrow> (error + unit) \<times> state" where
  "deleteInventoryItem st ident =
     (case getInitializedMysqlPool st of
        None \<Rightarrow>
          on_mem st
            (let m1 = (mem st)\<lparr>items := AList.delete ident (items (mem st))\<rparr>;
                 m2 = m1\<lparr>movements :=
                        fold (\<lambda>movement ms.
                                if mv_itemId movement = ident then AList.delete (mv_id movement) ms
                                else ms)
                             (values_of (movements m1)) (movements m1)\<rparr>
             in Inr ((), m2))
      | Some db \<Rightarrow>
          on_db st
            (Inr ((), db\<lparr>tbl_inventory_items := AList.delete ident (tbl_inventory_items db),
                         tbl_inventory_movements :=
                           sql_delete_where (\<lambda>row. mv_itemId row = ident)
                             (tbl_inventory_movements db)\<rparr>)))"

definition getItemRowForUpdate :: "database \<Rightarrow> string \<Rightarrow> error + InventoryItem" where
  "getItemRowForUpdate db ident =
     (case map_of (tbl_inventory_items db) ident of
        None \<Rightarrow> Inl InventoryItemNotFound
      | Some row \<Rightarrow> Inr row)"

text \<open>\<open>INSERT INTO inventory_movements\<close>: the item must exist, the id must be new.\<close>

definition insert_movement :: "database \<Rightarrow> Movement \<Rightarrow> error + database" where
  "insert_movement db row =
     (if \<not> has_key (tbl_inventory_items db) (mv_itemId row) then Inl ConstraintViolation
      else bind_err (sql_insert (mv_id row) row (tbl_inventory_movements db)) (\<lambda>tbl.
             Inr (db\<lparr>tbl_inventory_movements := tbl\<rparr>)))"

text \<open>
  \<^verbatim>\<open>
  // in memory
  const item = fallbackStore.items.get(input.itemId);
  if (!item) throw new Error("Inventory item not found");
  const updated: InventoryItem = { ...item, quantity: item.quantity + input.qty,
                                   updatedAt: input.date };
  fallbackStore.items.set(updated.id, updated);
  const movement: Movement = { id: crypto.randomUUID(), itemId: input.itemId, kind: "in",
    qty: input.qty, unitPrice: input.unitPrice, total: input.qty * input.unitPrice,
    party: input.supplier, date: input.date };
  fallbackStore.movements.set(movement.id, movement);
  const transaction = createTransactionFallback({ date: input.date, type: "expense",
    description: ..., amount: movement.total, approved: input.approved,
    createdBy: input.createdBy ?? null });
  return { item: updated, movement, transaction };
  // on the database, between beginTransaction and commit
  const base = await getItemRowForUpdate(conn, input.itemId);
  const total = input.qty * input.unitPrice;
  UPDATE inventory_items SET quantity = quantity + ?, updated_at = ? WHERE id = ?
  const updated = await getItemRowForUpdate(conn, input.itemId);
  INSERT INTO inventory_movements (id, item_id, kind, qty, unit_price, total, party, date)
    VALUES (?, ?, 'in', ?, ?, ?, ?, ?)
  SELECT ... FROM inventory_movements WHERE id = ? LIMIT 1
  const transaction = await insertTransactionDb({ ..., amount: total, ... }, conn);
  \<close>
\<close>

definition recordInventoryReceipt_mem ::
  "fallbackStore \<Rightarrow> string \<Rightarrow> string \<Rightarrow> string \<Rightarrow> InventoryReceiptInput
     \<Rightarrow> error + (InventoryMovementResult \<times> fallbackStore)" where
  "recordInventoryReceipt_mem m movementId transactionId now input =
     (case map_of (items m) (rc_itemId input) of
        None \<Rightarrow> Inl InventoryItemNotFound
      | Some item \<Rightarrow>
          (let updated = item\<lparr>it_quantity := it_quantity item + rc_qty input,
                              it_updatedAt := rc_date input\<rparr>;
               m1 = m\<lparr>items := AList.update (it_id updated) updated (items m)\<rparr>;
               movement = \<lparr>mv_id = movementId, mv_itemId = rc_itemId input, mv_kind = KindIn,
                           mv_qty = rc_qty input, mv_unitPrice = rc_unitPrice input,
                           mv_total = rc_qty input * rc_unitPrice input,
                           mv_party = rc_supplier input, mv_date = rc_date input\<rparr>;
               m2 = m1\<lparr>movements := AList.update (mv_id movement) movement (movements m1)\<rparr>;
               (transaction, m3) =
                 createTransactionFallback m2 transactionId now
                   \<lparr>tci_date = rc_date input, tci_type = Expense,
                    tci_description =
                      PurchaseDescription (it_name item) (rc_supplier input) (rc_qty input)
                        (it_unit item) (rc_unitPrice input),
                    tci_amount = mv_total movement, tci_approved = rc_approved input,
                    tci_createdBy = rc_createdBy input\<rparr>
           in Inr (\<lparr>res_item = updated, res_movement = movement,
                     res_transaction = transaction\<rparr>, m3)))"

definition recordInventoryReceipt_db ::
  "database \<Rightarrow> string \<Rightarrow> string \<Rightarrow> string \<Rightarrow> InventoryReceiptInput
     \<Rightarrow> error + (InventoryMovementResult \<times> database)" where
  "recordInventoryReceipt_db db movementId transactionId now input =
     bind_err (getItemRowForUpdate db (rc_itemId input)) (\<lambda>base.
       (let total = rc_qty input * rc_unitPrice input;
            db1 = db\<lparr>tbl_inventory_items :=
                    sql_update (rc_itemId input)
                      (\<lambda>row. row\<lparr>it_quantity := it_quantity row + rc_qty input,
                                  it_updatedAt := rc_date input\<rparr>)
                      (tbl_inventory_items db)\<rparr>
        in bind_err (getItemRowForUpdate db1 (rc_itemId input)) (\<lambda>updated.
           bind_err (insert_movement db1
                       \<lparr>mv_id = movementId, mv_itemId = rc_itemId input, mv_kind = KindIn,
                        mv_qty = rc_qty input, mv_unitPrice = rc_unitPrice input,
                        mv_total = total, mv_party = rc_supplier input,
                        mv_date = rc_date input\<rparr>) (\<lambda>db2.
           (case map_of (tbl_inventory_movements db2) movementId of
              None \<Rightarrow> Inl NoRow
            | Some movementRow \<Rightarrow>
                bind_err (insertTransactionDb db2 transactionId now
                            \<lparr>tci_date = rc_date input, tci_type = Expense,
                             tci_description =
                               PurchaseDescription (it_name base) (rc_supplier input)
                                 (rc_qty input) (it_unit base) (rc_unitPrice input),
                             tci_amount = total, tci_approved = rc_approved input,
                             tci_createdBy = rc_createdBy input\<rparr>) (\<lambda>(transaction, db3).
                  Inr (\<lparr>res_item = mapInventoryItemRow updated,
                        res_movement = mapMovementRow movementRow,
                        res_transaction = transaction\<rparr>, db3)))))))"

definition recordInventoryReceipt ::
  "state \<Rightarrow> string \<Rightarrow> string \<Rightarrow> string \<Rightarrow> InventoryReceiptInput
     \<Rightarrow> (error + InventoryMovementResult) \<times> state" where
  "recordInventoryReceipt st movementId transactionId now input =
     (case getInitializedMysqlPool st of
        None \<Rightarrow> on_mem st (recordInventoryReceipt_mem (mem st) movementId transactionId now input)
      | Some db \<Rightarrow> on_db st (recordInventoryReceipt_db db movementId transactionId now input))"

text \<open>
  The issue differs from the receipt in the quantity it stores, the kind of the movement,
  the party and the description:
  \<^verbatim>\<open>
  // in memory
  const nextQuantity = Math.max(0, item.quantity - input.qty);
  const updated: InventoryItem = { ...item, quantity: nextQuantity, updatedAt: input.date };
  fallbackStore.items.set(updated.id, updated);
  // on the database
  const currentQty = asNumber(base.quantity);
  const nextQuantity = Math.max(0, currentQty - input.qty);
  await conn.query(
    `UPDATE inventory_items SET quantity = ?, updated_at = ? WHERE id = ?`,
    [nextQuantity, input.date, input.itemId]);
  \<close>
\<close>

definition recordInventoryIssue_mem ::
  "fallbackStore \<Rightarrow> string \<Rightarrow> string \<Rightarrow> string \<Rightarrow> InventoryIssueInput
     \<Rightarrow> error + (InventoryMovementResult \<times> fallbackStore)" where
  "recordInventoryIssue_mem m movementId transactionId now input =
     (case map_of (items m) (is_itemId input) of
        None \<Rightarrow> Inl InventoryItemNotFound
      | Some item \<Rightarrow>
          (let nextQuantity = max 0 (it_quantity item - is_qty input);
               updated = item\<lparr>it_quantity := nextQuantity, it_updatedAt := is_date input\<rparr>;
               m1 = m\<lparr>items := AList.update (it_id updated) updated (items m)\<rparr>;
               movement = \<lparr>mv_id = movementId, mv_itemId = is_itemId input, mv_kind = KindOut,
                           mv_qty = is_qty input, mv_unitPrice = is_unitPrice input,
                           mv_total = is_qty input * is_unitPrice input,
                           mv_party = is_project input, mv_date = is_date input\<rparr>;
               m2 = m1\<lparr>movements := AList.update (mv_id movement) movement (movements m1)\<rparr>;
               (transaction, m3) =
                 createTransactionFallback m2 transactionId now
                   \<lparr>tci_date = is_date input, tci_type = Expense,
                    tci_description =
                      IssueDescription (it_name item) (is_project input) (is_qty input)
                        (it_unit item) (is_unitPrice input),
                    tci_amount = mv_total movement, tci_approved = is_approved input,
                    tci_createdBy = is_createdBy input\<rparr>
           in Inr (\<lparr>res_item = updated, res_movement = movement,
                     res_transaction = transaction\<rparr>, m3)))"

definition recordInventoryIssue_db ::
  "database \<Rightarrow> string \<Rightarrow> string \<Rightarrow> string \<Rightarrow> InventoryIssueInput
     \<Rightarrow> error + (InventoryMovementResult \<times> database)" where
  "recordInventoryIssue_db db movementId transactionId now input =
     bind_err (getItemRowForUpdate db (is_itemId input)) (\<lambda>base.
       (let total = is_qty input * is_unitPrice input;
            currentQty = it_quantity base;
            nextQuantity = max 0 (currentQty - is_qty input);
            db1 = db\<lparr>tbl_inventory_items :=
                    sql_update (is_itemId input)
                      (\<lambda>row. row\<lparr>it_quantity := nextQuantity, it_updatedAt := is_date input\<rparr>)
                      (tbl_inventory_items db)\<rparr>
        in bind_err (getItemRowForUpdate db1 (is_itemId input)) (\<lambda>updated.
           bind_err (insert_movement db1
                       \<lparr>mv_id = movementId, mv_itemId = is_itemId input, mv_kind = KindOut,
                        mv_qty = is_qty input, mv_unitPrice = is_unitPrice input,
                        mv_total = total, mv_party = is_project input,
                        mv_date = is_date input\<rparr>) (\<lambda>db2.
           (case map_of (tbl_inventory_movements db2) movementId of
              None \<Rightarrow> Inl NoRow
            | Some movementRow \<Rightarrow>
                bind_err (insertTransactionDb db2 transactionId now
                            \<lparr>tci_date = is_date input, tci_type = Expense,
                             tci_description =
                               IssueDescription (it_name base) (is_project input)
                                 (is_qty input) (it_unit base) (is_unitPrice input),
                             tci_amount = total, tci_approved = is_approved input,
                             tci_createdBy = is_createdBy input\<rparr>) (\<lambda>(transaction, db3).
                  Inr (\<lparr>res_item = mapInventoryItemRow updated,
                        res_movement = mapMovementRow movementRow,
                        res_transaction = transaction\<rparr>, db3)))))))"

definition recordInventoryIssue ::
  "state \<Rightarrow> string \<Rightarrow> string \<Rightarrow> string \<Rightarrow> InventoryIssueInput
     \<Rightarrow> (error + InventoryMovementResult) \<times> state" where
  "recordInventoryIssue st movementId transactionId now input =
     (case getInitializedMysqlPool st of
        None \<Rightarrow> on_mem st (recordInventoryIssue_mem (mem st) movementId transactionId now input)
      | Some db \<Rightarrow> on_db st (recordInventoryIssue_db db movementId transactionId now input))"

subsection \<open>Projects\<close>

definition createProject ::
  "state \<Rightarrow> string \<Rightarrow> ProjectCreateInput \<Rightarrow> (error + Project) \<times> state" where
  "createProject st uuid input =
     (let project = \<lparr>p_id = uuid, p_name = pc_name input, p_location = pc_location input,
                     p_floors = pc_floors input, p_units = pc_units input,
                     p_createdAt = pc_createdAt input\<rparr>
      in case getInitializedMysqlPool st of
           None \<Rightarrow>
             on_mem st
               (Inr (project,
                     (mem st)\<lparr>projects := AList.update (p_id project) project (projects (mem st))\<rparr>))
         | Some db \<Rightarrow>
             on_db st
               (bind_err (sql_insert uuid project (tbl_projects db)) (\<lambda>tbl.
                  (case map_of tbl uuid of
                     None \<Rightarrow> Inl NoRow
                   | Some row \<Rightarrow> Inr (mapProjectRow row, db\<lparr>tbl_projects := tbl\<rparr>)))))"

text \<open>
  Deleting rows of the database, with the cascades of the schema:
  \<open>installment_reminders.installment_id\<close> follows \<open>project_installments\<close>,
  \<open>project_installments.sale_id\<close> follows \<open>project_sales\<close>, and
  \<open>project_costs\<close>, \<open>project_sales\<close> and \<open>project_installments\<close> follow
  \<open>projects\<close> through \<open>project_id\<close>, all \<open>ON DELETE CASCADE\<close>.
\<close>

definition delete_installments_where :: "(Installment \<Rightarrow> bool) \<Rightarrow> database \<Rightarrow> database" where
  "delete_installments_where P db =
     (let gone = map fst (filter (\<lambda>(k, row). P row) (tbl_project_installments db))
      in db\<lparr>tbl_project_installments := sql_delete_where P (tbl_project_installments db),
            tbl_installment_reminders :=
              sql_delete_where (\<lambda>r. r_installmentId r \<in> set gone) (tbl_installment_reminders db)\<rparr>)"

definition delete_sales_where :: "(ProjectSale \<Rightarrow> bool) \<Rightarrow> database \<Rightarrow> database" where
  "delete_sales_where P db =
     (let gone = map fst (filter (\<lambda>(k, row). P row) (tbl_project_sales db))
      in delete_installments_where (\<lambda>i. i_saleId i \<in> set gone)
           (db\<lparr>tbl_project_sales := sql_delete_where P (tbl_project_sales db)\<rparr>))"

definition delete_project_row :: "string \<Rightarrow> database \<Rightarrow> database" where
  "delete_project_row ident db =
     delete_installments_where (\<lambda>i. i_projectId i = ident)
       (delete_sales_where (\<lambda>s. s_projectId s = ident)
          (db\<lparr>tbl_projects := AList.delete ident (tbl_projects db),
              tbl_project_costs :=
                sql_delete_where (\<lambda>c. c_projectId c = ident) (tbl_project_costs db)\<rparr>))"

text \<open>
  \<^verbatim>\<open>
  export async function deleteProject(id: string): Promise<void> {
    const pool = await getInitializedMysqlPool();
    if (!pool) {
      if (!fallbackStore.projects.delete(id)) {
        throw new Error("Project not found");
      }
      for (const cost of [...fallbackStore.costs.values()]) {
        if (cost.projectId === id) {
          fallbackStore.costs.delete(cost.id);
        }
      }
      for (const sale of [...fallbackStore.sales.values()]) {
        if (sale.projectId === id) {
          fallbackStore.sales.delete(sale.id);
        }
      }
      return;
    }
    const conn = await pool.getConnection();
    try {
      await conn.beginTransaction();
      const [projects] = await conn.query<ProjectRow[]>(
        `SELECT id FROM projects WHERE id = ? LIMIT 1`, [id]);
      if (!projects.length) {
        throw new Error("Project not found");
      }
      await conn.query(`DELETE FROM project_sales WHERE project_id = ?`, [id]);
      await conn.query(`DELETE FROM project_costs WHERE project_id = ?`, [id]);
      await conn.query(`DELETE FROM projects WHERE id = ?`, [id]);
      await conn.commit();
    } catch (error) { await conn.rollback(); throw error; }
    finally { conn.release(); }
  }
  \<close>
\<close>

definition deleteProject_mem :: "fallbackStore \<Rightarrow> string \<Rightarrow> error + (unit \<times> fallbackStore)" where
  "deleteProject_mem m ident =
     (if \<not> has_key (projects m) ident then Inl ProjectNotFound
      else
        (let m1 = m\<lparr>projects := AList.delete ident (projects m)\<rparr>;
             m2 = m1\<lparr>costs :=
                    fold (\<lambda>cost cs. if c_projectId cost = ident then AList.delete (c_id cost) cs else cs)
                         (values_of (costs m1)) (costs m1)\<rparr>;
             m3 = m2\<lparr>sales :=
                    fold (\<lambda>sale ss. if s_projectId sale = ident then AList.delete (s_id sale) ss else ss)
                         (values_of (sales m2)) (sales m2)\<rparr>
         in Inr ((), m3)))"

definition deleteProject_db :: "database \<Rightarrow> string \<Rightarrow> error + (unit \<times> database)" where
  "deleteProject_db db ident =
     (if \<not> has_key (tbl_projects db) ident then Inl ProjectNotFound
      else
        (let db1 = delete_sales_where (\<lambda>s. s_projectId s = ident) db;
             db2 = db1\<lparr>tbl_project_costs :=
                      sql_delete_where (\<lambda>c. c_projectId c = ident) (tbl_project_costs db1)\<rparr>;
             db3 = delete_project_row ident db2
         in Inr ((), db3)))"

definition deleteProject :: "state \<Rightarrow> string \<Rightarrow> (error + unit) \<times> state" where
  "deleteProject st ident =
     (case getInitializedMysqlPool st of
        None \<Rightarrow> on_mem st (deleteProject_mem (mem st) ident)
      | Some db \<Rightarrow> on_db st (deleteProject_db db ident))"

subsection \<open>Project costs\<close>

definition is_space :: "char \<Rightarrow> bool" where
  "is_space c = (c \<in> set [CHR 0x09, CHR 0x0A, CHR 0x0B, CHR 0x0C, CHR 0x0D, CHR '' ''])"

text \<open>\<open>String.prototype.trim\<close>, on the white space of ASCII.\<close>

definition trim :: "string \<Rightarrow> string" where
  "trim s = rev (dropWhile is_space (rev (dropWhile is_space s)))"

definition normalizeCustomTypeLabel :: "string option \<Rightarrow> string option" where
  "normalizeCustomTypeLabel v =
     (case v of
        None \<Rightarrow> None
      | Some s \<Rightarrow> (let trimmed = trim s in if trimmed \<noteq> [] then Some trimmed else None))"

definition projectCostTypeLabel :: "ProjectCostType \<Rightarrow> string option \<Rightarrow> CostLabel" where
  "projectCostTypeLabel ty customTypeLabel =
     (if ty = Construction then LabelConstruction
      else if ty = Operation then LabelOperation
      else if ty = ExpenseCost then LabelExpense
      else (case normalizeCustomTypeLabel customTypeLabel of
              Some normalized \<Rightarrow> LabelCustom normalized
            | None \<Rightarrow> LabelOther))"

definition cost_transaction_input :: "ProjectCostCreateInput \<Rightarrow> string option \<Rightarrow> TransactionCreateInput" where
  "cost_transaction_input input customTypeLabel =
     \<lparr>tci_date = cc_date input, tci_type = Expense,
      tci_description =
        CostDescription (projectCostTypeLabel (cc_type input) customTypeLabel) (cc_projectName input),
      tci_amount = cc_amount input, tci_approved = cc_approved input,
      tci_createdBy = cc_createdBy input\<rparr>"

definition new_cost :: "string \<Rightarrow> ProjectCostCreateInput \<Rightarrow> ProjectCost" where
  "new_cost uuid input =
     \<lparr>c_id = uuid, c_projectId = cc_projectId input, c_type = cc_type input,
      c_customTypeLabel = normalizeCustomTypeLabel (cc_customTypeLabel input),
      c_amount = cc_amount input, c_date = cc_date input, c_note = cc_note input\<rparr>"

definition createProjectCost_mem ::
  "fallbackStore \<Rightarrow> string \<Rightarrow> string \<Rightarrow> string \<Rightarrow> ProjectCostCreateInput
     \<Rightarrow> error + (ProjectCostCreateResult \<times> fallbackStore)" where
  "createProjectCost_mem m costId transactionId now input =
     (let customTypeLabel = normalizeCustomTypeLabel (cc_customTypeLabel input);
          cost = new_cost costId input;
          m1 = m\<lparr>costs := AList.update (c_id cost) cost (costs m)\<rparr>;
          (transaction, m2) =
            createTransactionFallback m1 transactionId now (cost_transaction_input input customTypeLabel)
      in Inr (\<lparr>ccr_cost = cost, ccr_transaction = transaction\<rparr>, m2))"

definition createProjectCost_db ::
  "database \<Rightarrow> string \<Rightarrow> string \<Rightarrow> string \<Rightarrow> ProjectCostCreateInput
     \<Rightarrow> error + (ProjectCostCreateResult \<times> database)" where
  "createProjectCost_db db costId transactionId now input =
     (let customTypeLabel = normalizeCustomTypeLabel (cc_customTypeLabel input)
      in if \<not> has_key (tbl_projects db) (cc_projectId input) then Inl ConstraintViolation
         else
           bind_err (sql_insert costId (new_cost costId input) (tbl_project_costs db)) (\<lambda>tbl.
             (case map_of tbl costId of
                None \<Rightarrow> Inl NoRow
              | Some row \<Rightarrow>
                  bind_err (insertTransactionDb (db\<lparr>tbl_project_costs := tbl\<rparr>) transactionId now
                              (cost_transaction_input input customTypeLabel)) (\<lambda>(transaction, db2).
                    Inr (\<lparr>ccr_cost = mapProjectCostRow row, ccr_transaction = transaction\<rparr>, db2)))))"

definition createProjectCost ::
  "state \<Rightarrow> string \<Rightarrow> string \<Rightarrow> string \<Rightarrow> ProjectCostCreateInput
     \<Rightarrow> (error + ProjectCostCreateResult) \<times> state" where
  "createProjectCost st costId transactionId now input =
     (case getInitializedMysqlPool st of
        None \<Rightarrow> on_mem st (createProjectCost_mem (mem st) costId transactionId now input)
      | Some db \<Rightarrow> on_db st (createProjectCost_db db costId transactionId now input))"

section \<open>Installment schedule\<close>

text \<open>
  \<^verbatim>\<open>
  function createInstallmentsForSale(params): Installment[] {
    const list: Installment[] = [];
    const pool = getMysqlPool();
    for (let i = 0; i < params.months; i++) {
      const id = crypto.randomUUID();
      const dueDate = addMonthsISO(params.firstDueDate, i);
      const inst: Installment = { id, projectId: params.projectId, saleId: params.saleId,
        unitNo: params.unitNo, buyer: params.buyer, amount: params.monthlyAmount,
        dueDate, paid: false, paidAt: null };
      list.push(inst);
      fallbackStore.installments.set(id, inst);
      if (pool) {
        void (async () => {
          try { await pool.query(`INSERT INTO project_installments (...) VALUES (...)`, [...]); }
          catch (err) { console.error("Failed to persist installment", err); }
        })();
      }
    }
    return list.sort((a, b) =>
      a.dueDate === b.dueDate ? 0 : a.dueDate < b.dueDate ? -1 : 1);
  }
  \<close>
  The loop runs for \<open>i = 0, 1, ...\<close> while \<open>i < months\<close>: \<open>\<lceil>months\<rceil>\<close> times for a
  positive \<open>months\<close>, never otherwise. \<open>uuid i\<close> is the identifier drawn in round \<open>i\<close>.
  The insert into the database is not awaited and its failure is only logged; the model
  runs it at once on a ready database and drops it when the database rejects it.
  \<open>Array.prototype.sort\<close> is stable, and the comparator is the order of strings:
  \<open>sort_key\<close>.
\<close>

definition insert_installment :: "database \<Rightarrow> Installment \<Rightarrow> error + database" where
  "insert_installment db row =
     (if \<not> has_key (tbl_projects db) (i_projectId row)
         \<or> \<not> has_key (tbl_project_sales db) (i_saleId row) then Inl ConstraintViolation
      else bind_err (sql_insert (i_id row) row (tbl_project_installments db)) (\<lambda>tbl.
             Inr (db\<lparr>tbl_project_installments := tbl\<rparr>)))"

definition persist_installment :: "state \<Rightarrow> Installment \<Rightarrow> state" where
  "persist_installment st inst =
     (case pool st of
        Ready db \<Rightarrow>
          (case insert_installment db inst of
             Inl e \<Rightarrow> st
           | Inr db1 \<Rightarrow> st\<lparr>pool := Ready db1\<rparr>)
      | _ \<Rightarrow> st)"

definition new_installment :: "(nat \<Rightarrow> string) \<Rightarrow> InstallmentParams \<Rightarrow> nat \<Rightarrow> Installment" where
  "new_installment uuid params i =
     (let ident = uuid i;
          dueDate = addMonthsISO (ip_firstDueDate params) (int i)
      in \<lparr>i_id = ident, i_projectId = ip_projectId params, i_saleId = ip_saleId params,
          i_unitNo = ip_unitNo params, i_buyer = ip_buyer params,
          i_amount = ip_monthlyAmount params, i_dueDate = dueDate,
          i_paid = False, i_paidAt = None\<rparr>)"

definition installment_round ::
  "(nat \<Rightarrow> string) \<Rightarrow> InstallmentParams \<Rightarrow> Installment list \<times> state \<Rightarrow> nat
     \<Rightarrow> Installment list \<times> state" where
  "installment_round uuid params acc i =
     (let (list, st) = acc;
          inst = new_installment uuid params i;
          st1 = st\<lparr>mem := (mem st)\<lparr>installments :=
                      AList.update (i_id inst) inst (installments (mem st))\<rparr>\<rparr>
      in (list @ [inst], persist_installment st1 inst))"

definition createInstallmentsForSale ::
  "state \<Rightarrow> (nat \<Rightarrow> string) \<Rightarrow> InstallmentParams \<Rightarrow> Installment list \<times> state" where
  "createInstallmentsForSale st uuid params =
     (let (list, st1) = foldl (installment_round uuid params) ([], st)
                          [0 ..< nat \<lceil>ip_months params\<rceil>]
      in (sort_key i_dueDate list, st1))"

subsection \<open>Project sales\<close>

text \<open>
  \<open>hasPlan = Boolean(input && input.monthlyAmount && input.months && input.firstDueDate)\<close>:
  a number is truthy when it is neither null nor 0, a string when it is neither null
  nor empty. \<open>Number(null)\<close> is 0 and \<open>String(null)\<close> is \<open>"null"\<close>.
\<close>

definition truthy_number :: "number option \<Rightarrow> bool" where
  "truthy_number v = (case v of None \<Rightarrow> False | Some x \<Rightarrow> x \<noteq> 0)"

definition truthy_string :: "string option \<Rightarrow> bool" where
  "truthy_string v = (case v of None \<Rightarrow> False | Some x \<Rightarrow> x \<noteq> [])"

definition Number_opt :: "number option \<Rightarrow> number" where
  "Number_opt v = (case v of None \<Rightarrow> 0 | Some x \<Rightarrow> x)"

definition String_opt :: "string option \<Rightarrow> string" where
  "String_opt v = (case v of None \<Rightarrow> ''null'' | Some x \<Rightarrow> x)"

definition hasPlan :: "ProjectSaleCreateInput \<Rightarrow> bool" where
  "hasPlan input =
     (truthy_number (sc_monthlyAmount input) \<and> truthy_number (sc_months input)
      \<and> truthy_string (sc_firstDueDate input))"

definition immediateAmount :: "ProjectSaleCreateInput \<Rightarrow> number" where
  "immediateAmount input =
     (if hasPlan input then max 0 (Number_opt (sc_downPayment input)) else sc_price input)"

definition sale_transaction_input :: "ProjectSaleCreateInput \<Rightarrow> TransactionCreateInput" where
  "sale_transaction_input input =
     \<lparr>tci_date = sc_date input, tci_type = Revenue,
      tci_description =
        (if hasPlan input then InstallmentSaleDescription (sc_unitNo input) (sc_projectName input)
         else CashSaleDescription (sc_unitNo input) (sc_projectName input) (sc_buyer input)),
      tci_amount = immediateAmount input, tci_approved = sc_approved input,
      tci_createdBy = sc_createdBy input\<rparr>"

definition installment_params :: "ProjectSaleCreateInput \<Rightarrow> string \<Rightarrow> InstallmentParams" where
  "installment_params input saleId =
     \<lparr>ip_projectId = sc_projectId input, ip_saleId = saleId, ip_unitNo = sc_unitNo input,
      ip_buyer = sc_buyer input, ip_monthlyAmount = Number_opt (sc_monthlyAmount input),
      ip_months = Number_opt (sc_months input),
      ip_firstDueDate = String_opt (sc_firstDueDate input)\<rparr>"

text \<open>\<open>x || null\<close> on an optional string: the empty string becomes null.\<close>

definition or_null :: "string option \<Rightarrow> string option" where
  "or_null v = (case v of Some [] \<Rightarrow> None | _ \<Rightarrow> v)"

definition insert_sale :: "database \<Rightarrow> ProjectSale \<Rightarrow> error + database" where
  "insert_sale db row =
     (if \<not> has_key (tbl_projects db) (s_projectId row) then Inl ConstraintViolation
      else bind_err (sql_insert (s_id row) row (tbl_project_sales db)) (\<lambda>tbl.
             Inr (db\<lparr>tbl_project_sales := tbl\<rparr>)))"

text \<open>The tail both branches share: the schedule, if the sale has a plan, and the result.\<close>

definition sale_result ::
  "state \<Rightarrow> (nat \<Rightarrow> string) \<Rightarrow> ProjectSaleCreateInput \<Rightarrow> ProjectSale \<Rightarrow> string \<Rightarrow> Transaction
     \<Rightarrow> (error + ProjectSaleCreateResult) \<times> state" where
  "sale_result st uuid input sale saleId transaction =
     (if hasPlan input then
        (let (list, st1) = createInstallmentsForSale st uuid (installment_params input saleId)
         in (Inr \<lparr>scr_sale = sale, scr_transaction = transaction, scr_installments = Some list\<rparr>,
             st1))
      else (Inr \<lparr>scr_sale = sale, scr_transaction = transaction, scr_installments = None\<rparr>, st))"

definition createProjectSale ::
  "state \<Rightarrow> string \<Rightarrow> string \<Rightarrow> (nat \<Rightarrow> string) \<Rightarrow> string \<Rightarrow> ProjectSaleCreateInput
     \<Rightarrow> (error + ProjectSaleCreateResult) \<times> state" where
  "createProjectSale st saleId transactionId uuid now input =
     (case getInitializedMysqlPool st of
        None \<Rightarrow>
          (let sale = \<lparr>s_id = saleId, s_projectId = sc_projectId input, s_unitNo = sc_unitNo input,
                       s_buyer = sc_buyer input, s_price = sc_price input, s_date = sc_date input,
                       s_terms = sc_terms input, s_area = sc_area input,
                       s_paymentMethod = sc_paymentMethod input\<rparr>;
               m1 = (mem st)\<lparr>sales := AList.update (s_id sale) sale (sales (mem st))\<rparr>;
               (transaction, m2) =
                 createTransactionFallback m1 transactionId now (sale_transaction_input input)
           in sale_result (st\<lparr>mem := m2\<rparr>) uuid input sale (s_id sale) transaction)
      | Some db \<Rightarrow>
          (case bind_err
                  (insert_sale db
                     \<lparr>s_id = saleId, s_projectId = sc_projectId input, s_unitNo = sc_unitNo input,
                      s_buyer = sc_buyer input, s_price = sc_price input, s_date = sc_date input,
                      s_terms = or_null (sc_terms input), s_area = or_null (sc_area input),
                      s_paymentMethod = or_null (sc_paymentMethod input)\<rparr>) (\<lambda>db1.
                  (case map_of (tbl_project_sales db1) saleId of
                     None \<Rightarrow> Inl NoRow
                   | Some row \<Rightarrow>
                       bind_err (insertTransactionDb db1 transactionId now
                                   (sale_transaction_input input)) (\<lambda>(transaction, db2).
                         Inr (row, transaction, db2)))) of
             Inl e \<Rightarrow> (Inl e, st)
           | Inr (row, transaction, db2) \<Rightarrow>
               sale_result (st\<lparr>pool := Ready db2\<rparr>) uuid input (mapProjectSaleRow row) saleId
                 transaction))"

subsection \<open>Deleting what is not there\<close>

text \<open>
  \<^verbatim>\<open>
  export async function payInstallment(params: {
    id: string; date: string; approved: boolean; createdBy?: string | null;
  }): Promise<{ installment: Installment; transaction: Transaction }> {
    const inst = fallbackStore.installments.get(params.id);
    if (!inst) throw new Error("Installment not found");
    if (inst.paid)
      return {
        installment: inst,
        transaction: await createTransaction({
          date: params.date, type: "revenue",
          description: `... ${inst.unitNo} ... ${inst.buyer}`,
          amount: inst.amount, approved: params.approved,
          createdBy: params.createdBy ?? null,
        }),
      };
    const updated: Installment = { ...inst, paid: true, paidAt: params.date };
    fallbackStore.installments.set(updated.id, updated);
    const transaction = await createTransaction({ ... the same input ... });
    return { installment: updated, transaction };
  }
  \<close>
\<close>

definition settlement_input :: "PayInstallmentParams \<Rightarrow> Installment \<Rightarrow> TransactionCreateInput" where
  "settlement_input params inst =
     \<lparr>tci_date = pay_date params, tci_type = Revenue,
      tci_description = InstallmentPaymentDescription (i_unitNo inst) (i_buyer inst),
      tci_amount = i_amount inst, tci_approved = pay_approved params,
      tci_createdBy = pay_createdBy params\<rparr>"

definition payInstallment ::
  "state \<Rightarrow> string \<Rightarrow> string \<Rightarrow> PayInstallmentParams \<Rightarrow> (error + PayInstallmentResult) \<times> state" where
  "payInstallment st transactionId now params =
     (case map_of (installments (mem st)) (pay_id params) of
        None \<Rightarrow> (Inl InstallmentNotFound, st)
      | Some inst \<Rightarrow>
          (if i_paid inst then
             (case createTransaction st transactionId now (settlement_input params inst) of
                (Inl e, st1) \<Rightarrow> (Inl e, st1)
              | (Inr transaction, st1) \<Rightarrow>
                  (Inr \<lparr>pr_installment = inst, pr_transaction = transaction\<rparr>, st1))
           else
             (let updated = inst\<lparr>i_paid := True, i_paidAt := Some (pay_date params)\<rparr>;
                  st1 = st\<lparr>mem := (mem st)\<lparr>installments :=
                              AList.update (i_id updated) updated (installments (mem st))\<rparr>\<rparr>
              in case createTransaction st1 transactionId now (settlement_input params inst) of
                   (Inl e, st2) \<Rightarrow> (Inl e, st2)
                 | (Inr transaction, st2) \<Rightarrow>
                     (Inr \<lparr>pr_installment = updated, pr_transaction = transaction\<rparr>, st2))))"

section \<open>Due-installment sweep\<close>

text \<open>
  \<open>getDueInstallments\<close> reads the in-memory map when there is no pool or the query
  fails, and the table \<open>project_installments\<close> otherwise
  (\<open>WHERE paid = 0 AND due_date <= ? ORDER BY due_date ASC\<close>; rows of one due date
  come in the order of the table). \<open>today\<close> is
  \<open>new Date().toISOString().slice(0, 10)\<close>.
\<close>

definition due_rows :: "string \<Rightarrow> Installment list \<Rightarrow> Installment list" where
  "due_rows date rows = sort_key i_dueDate (filter (\<lambda>i. \<not> i_paid i \<and> i_dueDate i \<le> date) rows)"

definition getDueInstallments :: "state \<Rightarrow> string option \<Rightarrow> string \<Rightarrow> Installment list" where
  "getDueInstallments st asOfDate today =
     (let date = (case asOfDate of None \<Rightarrow> today | Some d \<Rightarrow> d)
      in case pool st of
           Ready db \<Rightarrow> map mapInstallmentRow (due_rows date (values_of (tbl_project_installments db)))
         | _ \<Rightarrow> due_rows date (values_of (installments (mem st))))"

text \<open>
  \<^verbatim>\<open>
  export async function createInstallmentReminder(
    installmentId: string, note?: string | null): Promise<void> {
    const pool = getMysqlPool();
    if (!pool) {
      // fallback: just log to console
      console.log(`reminder: installment ${installmentId} ${note ?? ""}`);
      return;
    }
    try {
      await pool.query(
        `INSERT INTO installment_reminders (id, installment_id, note) VALUES (?, ?, ?)`,
        [crypto.randomUUID(), installmentId, note ?? null]);
    } catch (err) {
      console.error("Failed to record installment reminder", err);
    }
  }
  \<close>
\<close>

definition insert_reminder :: "database \<Rightarrow> Reminder \<Rightarrow> error + database" where
  "insert_reminder db row =
     (if \<not> has_key (tbl_project_installments db) (r_installmentId row) then Inl ConstraintViolation
      else bind_err (sql_insert (r_id row) row (tbl_installment_reminders db)) (\<lambda>tbl.
             Inr (db\<lparr>tbl_installment_reminders := tbl\<rparr>)))"

definition createInstallmentReminder ::
  "state \<Rightarrow> string \<Rightarrow> string \<Rightarrow> string \<Rightarrow> string option \<Rightarrow> state" where
  "createInstallmentReminder st uuid now installmentId note =
     (case pool st of
        NoPool \<Rightarrow> st
      | Unreachable \<Rightarrow> st
      | Ready db \<Rightarrow>
          (case insert_reminder db
                  \<lparr>r_id = uuid, r_installmentId = installmentId, r_note = note, r_sentAt = now\<rparr> of
             Inl e \<Rightarrow> st
           | Inr db1 \<Rightarrow> st\<lparr>pool := Ready db1\<rparr>))"

text \<open>
  One run of the scheduler (\<open>runOnce\<close> in \<open>scheduleDueInstallmentChecks\<close>):
  \<^verbatim>\<open>
  const list = await getDueInstallments();
  for (const inst of list) {
    await createInstallmentReminder(inst.id, `auto reminder for due ${inst.dueDate}`);
    console.log(...);
  }
  \<close>
  \<open>uuid k\<close> is the identifier drawn for the \<open>k\<close>-th installment of the list.
\<close>

definition runOnce :: "state \<Rightarrow> string \<Rightarrow> (nat \<Rightarrow> string) \<Rightarrow> string \<Rightarrow> state" where
  "runOnce st today uuid now =
     (let list = getDueInstallments st None today
      in fold (\<lambda>(k, inst) s.
                 createInstallmentReminder s (uuid k) now (i_id inst)
                   (Some (''auto reminder for due '' @ i_dueDate inst)))
              (zip [0 ..< length list] list) st)"

section \<open>The operations as a whole\<close>

text \<open>Every operation of the store that can write, and the state it leaves.\<close>

datatype operation =
    CreateTransaction string string TransactionCreateInput
  | ApproveTransaction string
  | DeleteTransaction string
  | CreateInventoryItem string InventoryItemCreateInput
  | DeleteInventoryItem string
  | RecordInventoryReceipt string string string InventoryReceiptInput
  | RecordInventoryIssue string string string InventoryIssueInput
  | CreateProject string ProjectCreateInput
  | DeleteProject string
  | CreateProjectCost string string string ProjectCostCreateInput
  | CreateProjectSale string string "nat \<Rightarrow> string" string ProjectSaleCreateInput
  | PayInstallment string string PayInstallmentParams
  | CreateInstallmentReminder string string string "string option"
  | RunOnce string "nat \<Rightarrow> string" string

fun exec :: "operation \<Rightarrow> state \<Rightarrow> state" where
  "exec (CreateTransaction uuid now input) st = snd (createTransaction st uuid now input)"
| "exec (ApproveTransaction ident) st = snd (approveTransaction st ident)"
| "exec (DeleteTransaction ident) st = snd (deleteTransaction st ident)"
| "exec (CreateInventoryItem uuid input) st = snd (createInventoryItem st uuid input)"
| "exec (DeleteInventoryItem ident) st = snd (deleteInventoryItem st ident)"
| "exec (RecordInventoryReceipt mid tid now input) st = snd (recordInventoryReceipt st mid tid now input)"
| "exec (RecordInventoryIssue mid tid now input) st = snd (recordInventoryIssue st mid tid now input)"
| "exec (CreateProject uuid input) st = snd (createProject st uuid input)"
| "exec (DeleteProject ident) st = snd (deleteProject st ident)"
| "exec (CreateProjectCost cid tid now input) st = snd (createProjectCost st cid tid now input)"
| "exec (CreateProjectSale sid tid uuid now input) st = snd (createProjectSale st sid tid uuid now input)"
| "exec (PayInstallment tid now params) st = snd (payInstallment st tid now params)"
| "exec (CreateInstallmentReminder uuid now installmentId note) st =
     createInstallmentReminder st uuid now installmentId note"
| "exec (RunOnce today uuid now) st = runOnce st today uuid now"

text \<open>The identifiers an operation draws for new installments.\<close>

fun installment_ids :: "operation \<Rightarrow> string set" where
  "installment_ids (CreateProjectSale sid tid uuid now input) =
     (if hasPlan input then uuid ` {..< nat \<lceil>Number_opt (sc_months input)\<rceil>} else {})"
| "installment_ids _ = {}"

section \<open>Offline mutation queue\<close>

text \<open>
  The client keeps two things in \<open>localforage\<close>: the list of queued requests under
  \<open>offline_queue_v1\<close> (read as the empty list when absent) and the cached reads, by
  key. \<open>fetched\<close> is the record of the \<open>fetch\<close> calls made, oldest first.
  What the network answers is given from outside: \<open>env_fetch n item\<close> is the outcome
  of \<open>fetch\<close> for \<open>item\<close> in pass \<open>n\<close>, a response with its status or a
  rejected promise; \<open>env_online n\<close> is \<open>navigator.onLine\<close> at the start of pass
  \<open>n\<close>; \<open>env_token\<close> is the token in \<open>localStorage\<close>.

  \<^verbatim>\<open>
  export async function processQueue(): Promise<void> {
    if (!isOnline()) return;
    let q = await loadQueue();
    if (!q.length) return;
    const remaining: QueuedRequest[] = [];
    for (const item of q) {
      try {
        const res = await fetch(item.url, { method: item.method, headers: ..., body: ... });
        if (!res.ok) {
          // Drop non-retryable 4xx errors to avoid blocking the queue
          if (res.status >= 400 && res.status < 500) {
            continue;
          }
          // Retryable
          item.retryCount += 1;
          if (item.retryCount <= 5) remaining.push(item);
        } else {
          const listKey = cacheKeyFor("/api/admin/users");
          await localforage.removeItem(listKey);
        }
      } catch {
        // Network failure -> keep for retry with backoff
        item.retryCount += 1;
        if (item.retryCount <= 5) remaining.push(item);
      }
    }
    await saveQueue(remaining);
    if (remaining.length) {
      const backoff = Math.min(30000, 1000 * Math.pow(2, remaining[0].retryCount));
      await wait(backoff);
      processQueue();
    }
  }
  \<close>
  \<open>replay\<close> is one round of the loop, \<open>drain_pass\<close> the loop and \<open>saveQueue\<close>,
  \<open>processQueue\<close> the function with its call of itself after the wait (the wait
  itself takes no part in the state). Every pass drops a request or raises its retry
  count, and a request is kept only up to count 5, so the passes come to an end.
\<close>

datatype HttpMethod = POST | PUT | DELETE

record QueuedRequest =
  q_id :: string
  q_url :: string
  q_method :: HttpMethod
  q_headers :: "(string \<times> string) list"
  q_body :: "string option"
  q_createdAt :: nat
  q_retryCount :: nat

datatype fetch_outcome = NetworkFailure | Response nat

record offline =
  queue :: "QueuedRequest list"
  cache :: "(string \<times> string) list"
  fetched :: "QueuedRequest list"

record environment =
  env_online :: "nat \<Rightarrow> bool"
  env_fetch :: "nat \<Rightarrow> QueuedRequest \<Rightarrow> fetch_outcome"
  env_token :: "string option"

definition cacheKeyFor :: "environment \<Rightarrow> string \<Rightarrow> string" where
  "cacheKeyFor env url =
     ''offline_cache_v1:'' @ ''GET:'' @ url @ '':t='' @
       (case env_token env of
          None \<Rightarrow> ''anon''
        | Some token \<Rightarrow> (if token = [] then ''anon'' else take 16 token))"

definition res_ok :: "nat \<Rightarrow> bool" where
  "res_ok status = (200 \<le> status \<and> status \<le> 299)"

definition retry_later :: "QueuedRequest list \<Rightarrow> QueuedRequest \<Rightarrow> QueuedRequest list" where
  "retry_later remaining item =
     (let item1 = item\<lparr>q_retryCount := q_retryCount item + 1\<rparr>
      in if q_retryCount item1 \<le> 5 then remaining @ [item1] else remaining)"

definition replay ::
  "environment \<Rightarrow> nat \<Rightarrow> QueuedRequest list \<times> offline \<Rightarrow> QueuedRequest
     \<Rightarrow> QueuedRequest list \<times> offline" where
  "replay env n acc item =
     (let (remaining, os) = acc;
          os1 = os\<lparr>fetched := fetched os @ [item]\<rparr>
      in case env_fetch env n item of
           NetworkFailure \<Rightarrow> (retry_later remaining item, os1)
         | Response status \<Rightarrow>
             (if \<not> res_ok status then
                (if status \<ge> 400 \<and> status < 500 then (remaining, os1)
                 else (retry_later remaining item, os1))
              else (remaining,
                    os1\<lparr>cache := AList.delete (cacheKeyFor env ''/api/admin/users'') (cache os1)\<rparr>)))"

definition drain_pass :: "environment \<Rightarrow> nat \<Rightarrow> offline \<Rightarrow> offline" where
  "drain_pass env n os =
     (let (remaining, os1) = foldl (replay env n) ([], os) (queue os)
      in os1\<lparr>queue := remaining\<rparr>)"

definition backoff :: "QueuedRequest list \<Rightarrow> nat" where
  "backoff remaining = min 30000 (1000 * 2 ^ q_retryCount (hd remaining))"

definition retry_budget :: "QueuedRequest list \<Rightarrow> nat" where
  "retry_budget q = sum_list (map (\<lambda>item. 6 - q_retryCount item) q)"

function processQueue :: "environment \<Rightarrow> nat \<Rightarrow> offline \<Rightarrow> offline" where
  "processQueue env n os =
     (if \<not> env_online env n then os
      else if queue os = [] then os
      else (let os1 = drain_pass env n os
            in if queue os1 \<noteq> [] then processQueue env (Suc n) os1 else os1))"
  by pat_completeness auto
termination
proof (relation "measure (\<lambda>(env, n, os). retry_budget (queue os))")
  show "wf (measure (\<lambda>(env, n, os). retry_budget (queue os)))" by simp
next
  fix env :: environment and n :: nat and os os1 :: offline
  assume on: "\<not> \<not> env_online env n" and ne: "queue os \<noteq> []"
    and os1: "os1 = drain_pass env n os" and ne1: "queue os1 \<noteq> []"
  have step: "retry_budget (retry_later acc item) + length (retry_later acc item)
                \<le> retry_budget acc + length acc + retry_budget [item]" for acc item
    by (auto simp add: retry_later_def retry_budget_def Let_def)
  have key: "retry_budget (fst (foldl (replay env n) (acc, s) q))
               + length (fst (foldl (replay env n) (acc, s) q))
             \<le> retry_budget acc + length acc + retry_budget q" for acc s q
  proof (induction q arbitrary: acc s)
    case Nil
    then show ?case by (simp add: retry_budget_def)
  next
    case (Cons item q)
    obtain acc1 s1 where r: "replay env n (acc, s) item = (acc1, s1)"
      by (cases "replay env n (acc, s) item")
    have "acc1 = acc \<or> acc1 = retry_later acc item"
      using r by (auto simp: replay_def Let_def split: fetch_outcome.splits if_splits)
    then have "retry_budget acc1 + length acc1 \<le> retry_budget acc + length acc + retry_budget [item]"
      using step [of acc item] by auto
    moreover have "retry_budget (item # q) = retry_budget [item] + retry_budget q"
      by (simp add: retry_budget_def)
    ultimately show ?case
      using Cons.IH [of acc1 s1] r by simp
  qed
  have q1: "queue os1 = fst (foldl (replay env n) ([], os) (queue os))"
    by (simp add: os1 drain_pass_def split_beta)
  have "retry_budget (queue os1) + length (queue os1) \<le> retry_budget (queue os)"
    using key [of "[]" os "queue os"] by (simp add: q1 retry_budget_def)
  moreover have "0 < length (queue os1)" using ne1 by simp
  ultimately have "retry_budget (queue os1) < retry_budget (queue os)" by linarith
  then show "((env, Suc n, os1), (env, n, os)) \<in> measure (\<lambda>(env, n, os). retry_budget (queue os))"
    by simp
qed



declare processQueue.simps [simp del]

text \<open>How often a request with a given id has been sent.\<close>

definition attempts :: "string \<Rightarrow> offline \<Rightarrow> nat" where
  "attempts ident os = length (filter (\<lambda>r. q_id r = ident) (fetched os))"

text \<open>What one round of the loop pushes onto \<open>remaining\<close>.\<close>

definition kept :: "environment \<Rightarrow> nat \<Rightarrow> QueuedRequest \<Rightarrow> QueuedRequest list" where
  "kept env n item =
     (case env_fetch env n item of
        NetworkFailure \<Rightarrow> retry_later [] item
      | Response status \<Rightarrow>
          (if \<not> res_ok status \<and> \<not> (status \<ge> 400 \<and> status < 500) then retry_later [] item else []))"

section \<open>Reading the stored state\<close>






text \<open>A map or a table whose entries are stored under their own ids.\<close>

definition keyed_by :: "('a \<Rightarrow> string) \<Rightarrow> 'a jsMap \<Rightarrow> bool" where
  "keyed_by ident tbl = list_all (\<lambda>(k, row). ident row = k) tbl"

text \<open>
  An installment is paid in a state when the in-memory map holds it with its flag set;
  \<open>run_ops\<close> runs operations one after the other; \<open>settled\<close> is the record
  \<open>payInstallment\<close> returns for an installment.
\<close>

definition paid_in :: "state \<Rightarrow> string \<Rightarrow> bool" where
  "paid_in st ident =
     (case map_of (installments (mem st)) ident of None \<Rightarrow> False | Some inst \<Rightarrow> i_paid inst)"

definition run_ops :: "operation list \<Rightarrow> state \<Rightarrow> state" where
  "run_ops ops st = fold exec ops st"


section \<open>Example states\<close>

definition empty_store :: fallbackStore where
  "empty_store =
     \<lparr>transactions = [], items = [], movements = [], projects = [], costs = [], sales = [],
      installments = []\<rparr>"

definition empty_db :: database where
  "empty_db =
     \<lparr>tbl_transactions = [], tbl_inventory_items = [], tbl_inventory_movements = [],
      tbl_projects = [], tbl_project_costs = [], tbl_project_sales = [],
      tbl_project_installments = [], tbl_installment_reminders = []\<rparr>"

text \<open>The plan of the specification's example: six months of 1000 from 2024-01-31.\<close>

definition plan_jan31 :: InstallmentParams where
  "plan_jan31 =
     \<lparr>ip_projectId = ''P1'', ip_saleId = ''S1'', ip_unitNo = ''A-1'', ip_buyer = ''Buyer'',
      ip_monthlyAmount = 1000, ip_months = 6, ip_firstDueDate = ''2024-01-31''\<rparr>"






text \<open>
  A project with one financed sale and its first installment, known to the database only
  (as after a restart of the process).
\<close>

definition installment_I1 :: Installment where
  "installment_I1 =
     \<lparr>i_id = ''I1'', i_projectId = ''P1'', i_saleId = ''S1'', i_unitNo = ''A-1'',
      i_buyer = ''Buyer'', i_amount = 500, i_dueDate = ''2024-01-01'', i_paid = False,
      i_paidAt = None\<rparr>"

definition project_P1 :: Project where
  "project_P1 =
     \<lparr>p_id = ''P1'', p_name = ''Tower'', p_location = ''Cairo'', p_floors = 10, p_units = 40,
      p_createdAt = ''2023-12-01''\<rparr>"

definition sale_S1 :: ProjectSale where
  "sale_S1 =
     \<lparr>s_id = ''S1'', s_projectId = ''P1'', s_unitNo = ''A-1'', s_buyer = ''Buyer'',
      s_price = 1000, s_date = ''2023-12-15'', s_terms = None, s_area = None,
      s_paymentMethod = None\<rparr>"

definition database_only :: state where
  "database_only =
     \<lparr>mem = empty_store,
      pool = Ready (empty_db\<lparr>tbl_projects := [(''P1'', project_P1)],
                             tbl_project_sales := [(''S1'', sale_S1)],
                             tbl_project_installments := [(''I1'', installment_I1)]\<rparr>)\<rparr>"

definition pay_I1 :: PayInstallmentParams where
  "pay_I1 = \<lparr>pay_id = ''I1'', pay_date = ''2024-01-05'', pay_approved = True, pay_createdBy = None\<rparr>"


text \<open>
  Two projects in one store: \<open>P1\<close> owns the costs \<open>C1\<close>, \<open>C2\<close> and the sale \<open>S1\<close>
  with the installments \<open>I1\<close>, \<open>I2\<close>; \<open>P2\<close> owns the cost \<open>C3\<close>.
\<close>

definition installment_I2 :: Installment where
  "installment_I2 =
     \<lparr>i_id = ''I2'', i_projectId = ''P1'', i_saleId = ''S1'', i_unitNo = ''A-1'',
      i_buyer = ''Buyer'', i_amount = 500, i_dueDate = ''2024-02-01'', i_paid = False,
      i_paidAt = None\<rparr>"

definition project_P2 :: Project where
  "project_P2 =
     \<lparr>p_id = ''P2'', p_name = ''Villa'', p_location = ''Giza'', p_floors = 2, p_units = 1,
      p_createdAt = ''2023-12-02''\<rparr>"

definition cost_of :: "string \<Rightarrow> string \<Rightarrow> ProjectCost" where
  "cost_of ident project =
     \<lparr>c_id = ident, c_projectId = project, c_type = Construction, c_customTypeLabel = None,
      c_amount = 100, c_date = ''2023-12-10'', c_note = ''''\<rparr>"

definition two_projects :: fallbackStore where
  "two_projects =
     empty_store
       \<lparr>projects := [(''P1'', project_P1), (''P2'', project_P2)],
        costs := [(''C1'', cost_of ''C1'' ''P1''), (''C2'', cost_of ''C2'' ''P1''),
                  (''C3'', cost_of ''C3'' ''P2'')],
        sales := [(''S1'', sale_S1)],
        installments := [(''I1'', installment_I1), (''I2'', installment_I2)]\<rparr>"

definition two_projects_db :: database where
  "two_projects_db =
     empty_db
       \<lparr>tbl_projects := [(''P1'', project_P1), (''P2'', project_P2)],
        tbl_project_costs := [(''C1'', cost_of ''C1'' ''P1''), (''C2'', cost_of ''C2'' ''P1''),
                  (''C3'', cost_of ''C3'' ''P2'')],
        tbl_project_sales := [(''S1'', sale_S1)],
        tbl_project_installments := [(''I1'', installment_I1), (''I2'', installment_I2)]\<rparr>"

text \<open>
  Identifiers as they might be drawn, all different, and a sale of 10000 with 1000 down
  and six installments of 1000.
\<close>

definition example_uuid :: "nat \<Rightarrow> string" where
  "example_uuid k = ''id-'' @ replicate k CHR ''i''"

definition financed_sale :: ProjectSaleCreateInput where
  "financed_sale =
     \<lparr>sc_projectId = ''P1'', sc_projectName = ''Tower'', sc_unitNo = ''A-1'', sc_buyer = ''Buyer'',
      sc_price = 10000, sc_date = ''2024-01-15'', sc_terms = None, sc_area = None,
      sc_paymentMethod = None, sc_downPayment = Some 1000, sc_monthlyAmount = Some 1000,
      sc_months = Some 6, sc_firstDueDate = Some ''2024-01-31'', sc_approved = True,
      sc_createdBy = None\<rparr>"

text \<open>The sum of the amounts of the installments an operation returned.\<close>

definition batch_total :: "error + ProjectSaleCreateResult \<Rightarrow> number option" where
  "batch_total res =
     (case res of
        Inl e \<Rightarrow> None
      | Inr r \<Rightarrow> map_option (\<lambda>list. sum_list (map i_amount list)) (scr_installments r))"


definition both_know_I1 :: state where
  "both_know_I1 =
     \<lparr>mem = empty_store\<lparr>installments := [(''I1'', installment_I1)]\<rparr>,
      pool = Ready (empty_db\<lparr>tbl_projects := [(''P1'', project_P1)],
                             tbl_project_sales := [(''S1'', sale_S1)],
                             tbl_project_installments := [(''I1'', installment_I1)]\<rparr>)\<rparr>"


text \<open>One queued request, and a server that answers every request with 400.\<close>

definition rejected_request :: QueuedRequest where
  "rejected_request =
     \<lparr>q_id = ''m1'', q_url = ''/api/admin/users'', q_method = POST, q_headers = [],
      q_body = Some ''{}'', q_createdAt = 0, q_retryCount = 0\<rparr>"

definition rejecting_server :: environment where
  "rejecting_server =
     \<lparr>env_online = (\<lambda>n. True), env_fetch = (\<lambda>n item. Response 400), env_token = None\<rparr>"

definition one_queued :: offline where
  "one_queued = \<lparr>queue = [rejected_request], cache = [], fetched = []\<rparr>"

section \<open>The installment schedule\<close>

lemma installment_rounds_list:
  "fst (foldl (installment_round uuid params) (acc, st) ns)
     = acc @ map (new_installment uuid params) ns"
  by (induction ns arbitrary: acc st) (simp_all add: installment_round_def Let_def)

lemma createInstallmentsForSale_list:
  "fst (createInstallmentsForSale st uuid params) =
     sort_key i_dueDate (map (new_installment uuid params) [0 ..< nat \<lceil>ip_months params\<rceil>])"
  using installment_rounds_list [of uuid params "[]" st]
  by (simp add: createInstallmentsForSale_def split_beta)

lemma createInstallmentsForSale_length:
  "length (fst (createInstallmentsForSale st uuid params)) = nat \<lceil>ip_months params\<rceil>"
  by (simp add: createInstallmentsForSale_list)

lemma createInstallmentsForSale_rows:
  "inst \<in> set (fst (createInstallmentsForSale st uuid params)) \<Longrightarrow>
     i_amount inst = ip_monthlyAmount params \<and> \<not> i_paid inst \<and> i_paidAt inst = None"
  by (auto simp: createInstallmentsForSale_list new_installment_def Let_def)

lemma createInstallmentsForSale_sorted:
  "sorted (map i_dueDate (fst (createInstallmentsForSale st uuid params)))"
  by (simp add: createInstallmentsForSale_list)

lemma addMonthsISO_jan31:
  "addMonthsISO ''2024-01-31'' 0 = ''2024-01-31''"
  "addMonthsISO ''2024-01-31'' 1 = ''2024-03-31''"
  "addMonthsISO ''2024-01-31'' 2 = ''2024-03-31''"
  "addMonthsISO ''2024-01-31'' 3 = ''2024-05-31''"
  "addMonthsISO ''2024-01-31'' 4 = ''2024-05-31''"
  "addMonthsISO ''2024-01-31'' 5 = ''2024-07-31''"
  by code_simp+

lemma upt_0_6: "[0 ..< 6] = [0, 1, 2, 3, 4, 5]"
  by (simp add: upt_rec)

text \<open>
  C1. The schedule of a financed sale has one row per month, each of the monthly amount
  and unpaid, sorted by due date, and the due dates are the first due date plus
  0, 1, ... months with the day clamped to the end of a shorter month; for six months
  of 1000 from 2024-01-31 the due dates would be 2024-01-31, 2024-02-29, 2024-03-31,
  2024-04-30, 2024-05-31, 2024-06-30.

  The schedule the code produces for that plan has six unpaid rows of 1000 in ascending
  order, but not these dates: \<open>new Date(2024, 1, 31)\<close> is already the second of March,
  so \<open>addMonthsISO\<close> reads month 03 and then clamps day 31 against the length of March.
  February, April and June are skipped and March and May are billed twice.
\<close>

theorem schedule_from_jan31_skips_short_months:
  "map (\<lambda>inst. (i_dueDate inst, i_amount inst, i_paid inst))
       (fst (createInstallmentsForSale st uuid plan_jan31))
   = [(''2024-01-31'', 1000, False), (''2024-03-31'', 1000, False),
      (''2024-03-31'', 1000, False), (''2024-05-31'', 1000, False),
      (''2024-05-31'', 1000, False), (''2024-07-31'', 1000, False)]"
  by (simp add: createInstallmentsForSale_list plan_jan31_def upt_0_6 new_installment_def
        addMonthsISO_jan31)

section \<open>Tables\<close>














section \<open>Inventory movements\<close>








section \<open>Deleting what is not there\<close>

text \<open>
  C9. Deleting an inventory item (or a transaction) whose id matches no stored record
  raises a not-found error and leaves the state unchanged.

  \<open>deleteInventoryItem\<close> never raises: on either backend it returns normally for an
  id it does not know, where its siblings \<open>deleteProject\<close> and (in memory)
  \<open>deleteTransaction\<close> throw, and where the route handler maps the error it expects
  to \<open>404 Inventory item not found\<close>.
\<close>

theorem deleteInventoryItem_never_reports_missing:
  "fst (deleteInventoryItem st ident) = Inr ()
   \<and> deleteInventoryItem \<lparr>mem = empty_store, pool = NoPool\<rparr> ''missing''
       = (Inr (), \<lparr>mem = empty_store, pool = NoPool\<rparr>)
   \<and> deleteInventoryItem \<lparr>mem = empty_store, pool = Ready empty_db\<rparr> ''missing''
       = (Inr (), \<lparr>mem = empty_store, pool = Ready empty_db\<rparr>)"
  by (simp add: deleteInventoryItem_def on_mem_def on_db_def getInitializedMysqlPool_def
        Let_def empty_store_def empty_db_def values_of_def sql_delete_where_def
        split: backend.splits)

lemma deleteTransaction_missing:
  "deleteTransaction \<lparr>mem = empty_store, pool = NoPool\<rparr> ''missing''
       = (Inl TransactionNotFound, \<lparr>mem = empty_store, pool = NoPool\<rparr>)
   \<and> deleteTransaction \<lparr>mem = empty_store, pool = Ready empty_db\<rparr> ''missing''
       = (Inr (), \<lparr>mem = empty_store, pool = Ready empty_db\<rparr>)"
  by (simp add: deleteTransaction_def on_mem_def on_db_def getInitializedMysqlPool_def
        empty_store_def empty_db_def has_key_def)

section \<open>Deleting a project\<close>

text \<open>
  C3. Deleting a project removes the project together with every cost, sale and
  installment that refers to it, and nothing else: deleting \<open>P1\<close>, which owns the
  costs \<open>C1\<close>, \<open>C2\<close> and the sale \<open>S1\<close> with the installments \<open>I1\<close>, \<open>I2\<close>,
  removes exactly these six.

  The in-memory branch removes \<open>P1\<close>, \<open>C1\<close>, \<open>C2\<close> and \<open>S1\<close> and leaves the
  other project and its cost alone, but it has no loop over
  \<open>fallbackStore.installments\<close>: \<open>I1\<close> and \<open>I2\<close> stay.
\<close>

theorem deleteProject_leaves_installments_in_memory:
  "deleteProject \<lparr>mem = two_projects, pool = NoPool\<rparr> ''P1''
     = (Inr (),
        \<lparr>mem = empty_store
                 \<lparr>projects := [(''P2'', project_P2)],
                  costs := [(''C3'', cost_of ''C3'' ''P2'')],
                  installments := [(''I1'', installment_I1), (''I2'', installment_I2)]\<rparr>,
         pool = NoPool\<rparr>)"
  by (simp add: deleteProject_def deleteProject_mem_def on_mem_def getInitializedMysqlPool_def
        Let_def two_projects_def empty_store_def has_key_def values_of_def cost_of_def
        sale_S1_def)

lemma deleteProject_cascades_in_database:
  "deleteProject \<lparr>mem = empty_store, pool = Ready two_projects_db\<rparr> ''P1''
     = (Inr (),
        \<lparr>mem = empty_store,
         pool = Ready (empty_db\<lparr>tbl_projects := [(''P2'', project_P2)],
                                tbl_project_costs := [(''C3'', cost_of ''C3'' ''P2'')]\<rparr>)\<rparr>)"
  by (simp add: deleteProject_def deleteProject_db_def on_db_def getInitializedMysqlPool_def
        Let_def two_projects_db_def empty_db_def has_key_def delete_project_row_def
        delete_sales_where_def delete_installments_where_def sql_delete_where_def cost_of_def
        sale_S1_def installment_I1_def installment_I2_def)
section \<open>The total of a batch\<close>

lemma sale_result_installments:
  "hasPlan input \<Longrightarrow>
     fst (sale_result st uuid input sale saleId transaction) =
       Inr \<lparr>scr_sale = sale, scr_transaction = transaction,
            scr_installments =
              Some (fst (createInstallmentsForSale st uuid (installment_params input saleId)))\<rparr>"
  by (simp add: sale_result_def split_beta)

lemma createProjectSale_installments:
  assumes plan: "hasPlan input"
    and ok: "fst (createProjectSale st saleId transactionId uuid now input) = Inr r"
  shows "\<exists>st1. scr_installments r =
           Some (fst (createInstallmentsForSale st1 uuid (installment_params input saleId)))"
proof (cases "getInitializedMysqlPool st")
  case None
  then show ?thesis
    using ok sale_result_installments [OF plan]
    by (auto simp: createProjectSale_def Let_def split_beta)
next
  case (Some db)
  then show ?thesis
    using ok sale_result_installments [OF plan]
    by (auto simp: createProjectSale_def Let_def split_beta split: sum.splits)
qed

lemma batch_sum:
  "sum_list (map i_amount (fst (createInstallmentsForSale st uuid params)))
     = ip_monthlyAmount params * of_nat (nat \<lceil>ip_months params\<rceil>)"
proof -
  let ?list = "fst (createInstallmentsForSale st uuid params)"
  have "map i_amount ?list = replicate (length ?list) (ip_monthlyAmount params)"
    by (rule replicate_eqI) (auto dest: createInstallmentsForSale_rows)
  then show ?thesis
    by (simp add: sum_list_replicate createInstallmentsForSale_length mult.commute)
qed

text \<open>
  C5, as the code has it. The installments of a financed sale are \<open>n\<close> rows of the
  monthly amount \<open>m\<close>, so their sum is \<open>m * n\<close>; neither the price nor the down
  payment enters the schedule.
\<close>

theorem batch_total_is_months_times_amount:
  assumes amount: "sc_monthlyAmount input = Some m" and m: "0 < m"
    and months: "sc_months input = Some (of_nat n)" and n: "0 < n"
    and first: "sc_firstDueDate input = Some d" and d: "d \<noteq> []"
    and ok: "fst (createProjectSale st saleId transactionId uuid now input) = Inr r"
  shows "\<exists>list. scr_installments r = Some list \<and> length list = n
           \<and> sum_list (map i_amount list) = m * of_nat n"
proof -
  have plan: "hasPlan input"
    using amount m months n first d by (simp add: hasPlan_def truthy_number_def truthy_string_def)
  from createProjectSale_installments [OF plan ok] obtain st1 where
    l: "scr_installments r =
          Some (fst (createInstallmentsForSale st1 uuid (installment_params input saleId)))"
    by blast
  have "ip_months (installment_params input saleId) = of_nat n"
    "ip_monthlyAmount (installment_params input saleId) = m"
    using amount months by (simp_all add: installment_params_def Number_opt_def)
  then show ?thesis
    using l batch_sum [of st1 uuid "installment_params input saleId"]
      createInstallmentsForSale_length [of st1 uuid "installment_params input saleId"]
    by simp
qed

lemma financed_sale_result:
  "fst (createProjectSale \<lparr>mem = empty_store, pool = NoPool\<rparr> ''S1'' ''T1'' example_uuid ''now''
          financed_sale)
   = Inr \<lparr>scr_sale = \<lparr>s_id = ''S1'', s_projectId = ''P1'', s_unitNo = ''A-1'', s_buyer = ''Buyer'',
                       s_price = 10000, s_date = ''2024-01-15'', s_terms = None, s_area = None,
                       s_paymentMethod = None\<rparr>,
          scr_transaction = new_transaction ''T1'' ''now'' (sale_transaction_input financed_sale),
          scr_installments =
            Some (fst (createInstallmentsForSale
                    \<lparr>mem = empty_store
                       \<lparr>sales := [(''S1'', \<lparr>s_id = ''S1'', s_projectId = ''P1'', s_unitNo = ''A-1'',
                           s_buyer = ''Buyer'', s_price = 10000, s_date = ''2024-01-15'',
                           s_terms = None, s_area = None, s_paymentMethod = None\<rparr>)],
                        transactions := [(''T1'', new_transaction ''T1'' ''now''
                                             (sale_transaction_input financed_sale))]\<rparr>,
                     pool = NoPool\<rparr>
                    example_uuid (installment_params financed_sale ''S1'')))\<rparr>"
  by (simp add: createProjectSale_def getInitializedMysqlPool_def Let_def
        createTransactionFallback_def split_beta sale_result_def hasPlan_def
        truthy_number_def truthy_string_def financed_sale_def empty_store_def
        new_transaction_def)

text \<open>
  C5 as stated, the sum of the batch equals \<open>price - downPayment\<close>, fails: a sale of
  10000 with 1000 down and six installments of 1000 has a batch of 6000, not 9000.
\<close>

theorem batch_total_differs_from_financed_amount:
  "batch_total (fst (createProjectSale \<lparr>mem = empty_store, pool = NoPool\<rparr> ''S1'' ''T1''
                       example_uuid ''now'' financed_sale)) = Some 6000
   \<and> sc_price financed_sale - Number_opt (sc_downPayment financed_sale) = 9000
   \<and> batch_total (fst (createProjectSale \<lparr>mem = empty_store, pool = NoPool\<rparr> ''S1'' ''T1''
                       example_uuid ''now'' financed_sale))
       \<noteq> Some (sc_price financed_sale - Number_opt (sc_downPayment financed_sale))"
proof -
  have total: "batch_total (fst (createProjectSale \<lparr>mem = empty_store, pool = NoPool\<rparr> ''S1''
                 ''T1'' example_uuid ''now'' financed_sale)) = Some 6000"
    by (subst financed_sale_result)
       (simp add: batch_total_def batch_sum installment_params_def financed_sale_def
          Number_opt_def)
  have financed: "sc_price financed_sale - Number_opt (sc_downPayment financed_sale) = 9000"
    by (simp add: financed_sale_def Number_opt_def)
  show ?thesis unfolding total financed by simp
qed

text \<open>
  The same sale: six rows, 6000 in all.
\<close>

theorem batch_total_is_months_times_amount_witness:
  "sc_monthlyAmount financed_sale = Some 1000 \<and> (0::rat) < 1000
   \<and> sc_months financed_sale = Some (of_nat 6) \<and> (0::nat) < 6
   \<and> sc_firstDueDate financed_sale = Some ''2024-01-31'' \<and> ''2024-01-31'' \<noteq> []
   \<and> (\<exists>r. fst (createProjectSale \<lparr>mem = empty_store, pool = NoPool\<rparr> ''S1'' ''T1''
                  example_uuid ''now'' financed_sale) = Inr r
          \<and> (\<exists>list. scr_installments r = Some list \<and> length list = 6
                \<and> sum_list (map i_amount list) = 1000 * of_nat 6))"
proof -
  have h1: "sc_monthlyAmount financed_sale = Some 1000"
    and h3: "sc_months financed_sale = Some (of_nat 6)"
    and h5: "sc_firstDueDate financed_sale = Some ''2024-01-31''"
    by (simp_all add: financed_sale_def)
  have h2: "(0::rat) < 1000" and h4: "(0::nat) < 6" and h6: "''2024-01-31'' \<noteq> []"
    by simp_all
  obtain r where r: "fst (createProjectSale \<lparr>mem = empty_store, pool = NoPool\<rparr> ''S1'' ''T1''
                  example_uuid ''now'' financed_sale) = Inr r"
    using financed_sale_result by blast
  show ?thesis
    using h1 h2 h3 h4 h5 h6 r batch_total_is_months_times_amount [OF h1 h2 h3 h4 h5 h6 r]
    by blast
qed

section \<open>The paid flag\<close>

lemma mem_persist_installment: "mem (persist_installment st inst) = mem st"
  by (simp add: persist_installment_def split: backend.splits sum.splits)

lemma installment_rounds_keep:
  "k \<notin> uuid ` set ns \<Longrightarrow>
     map_of (installments (mem (snd (foldl (installment_round uuid params) (acc, st) ns)))) k
       = map_of (installments (mem st)) k"
proof (induction ns arbitrary: acc st)
  case Nil
  then show ?case by simp
next
  case (Cons i ns)
  obtain acc1 st1 where r: "installment_round uuid params (acc, st) i = (acc1, st1)"
    by (cases "installment_round uuid params (acc, st) i")
  have "k \<noteq> uuid i" using Cons.prems by auto
  then have "map_of (installments (mem st1)) k = map_of (installments (mem st)) k"
    using r
    by (auto simp: installment_round_def Let_def mem_persist_installment new_installment_def
          AList.update_conv')
  moreover have "k \<notin> uuid ` set ns" using Cons.prems by auto
  ultimately show ?case using Cons.IH [of acc1 st1] r by simp
qed

lemma createInstallmentsForSale_keeps:
  "k \<notin> uuid ` {..< nat \<lceil>ip_months params\<rceil>} \<Longrightarrow>
     map_of (installments (mem (snd (createInstallmentsForSale st uuid params)))) k
       = map_of (installments (mem st)) k"
  using installment_rounds_keep [of k uuid "[0 ..< nat \<lceil>ip_months params\<rceil>]" params "[]" st]
  by (simp add: createInstallmentsForSale_def split_beta lessThan_atLeast0)

lemma installments_createTransaction:
  "installments (mem (snd (createTransaction st uuid now input))) = installments (mem st)"
  by (simp add: createTransaction_def on_mem_def on_db_def createTransactionFallback_def Let_def
        split: option.splits sum.splits prod.splits)

lemma installments_on_db: "installments (mem (snd (on_db st r))) = installments (mem st)"
  by (simp add: on_db_def split: sum.splits prod.splits)

lemma installments_approveTransaction:
  "installments (mem (snd (approveTransaction st ident))) = installments (mem st)"
  by (simp add: approveTransaction_def on_mem_def installments_on_db Let_def
        split: option.splits)

lemma installments_deleteTransaction:
  "installments (mem (snd (deleteTransaction st ident))) = installments (mem st)"
  by (simp add: deleteTransaction_def on_mem_def installments_on_db split: option.splits)

lemma installments_createInventoryItem:
  "installments (mem (snd (createInventoryItem st uuid input))) = installments (mem st)"
  by (simp add: createInventoryItem_def on_mem_def installments_on_db Let_def
        split: option.splits)

lemma installments_deleteInventoryItem:
  "installments (mem (snd (deleteInventoryItem st ident))) = installments (mem st)"
  by (simp add: deleteInventoryItem_def on_mem_def installments_on_db Let_def
        split: option.splits)

lemma installments_recordInventoryReceipt:
  "installments (mem (snd (recordInventoryReceipt st mid tid now input))) = installments (mem st)"
  by (simp add: recordInventoryReceipt_def recordInventoryReceipt_mem_def on_mem_def
        installments_on_db Let_def createTransactionFallback_def split_beta
        split: option.splits)

lemma installments_recordInventoryIssue:
  "installments (mem (snd (recordInventoryIssue st mid tid now input))) = installments (mem st)"
  by (simp add: recordInventoryIssue_def recordInventoryIssue_mem_def on_mem_def
        installments_on_db Let_def createTransactionFallback_def split_beta
        split: option.splits)

lemma installments_createProject:
  "installments (mem (snd (createProject st uuid input))) = installments (mem st)"
  by (simp add: createProject_def on_mem_def installments_on_db Let_def split: option.splits)

lemma installments_deleteProject:
  "installments (mem (snd (deleteProject st ident))) = installments (mem st)"
  by (simp add: deleteProject_def deleteProject_mem_def on_mem_def installments_on_db Let_def
        split: option.splits)

lemma installments_createProjectCost:
  "installments (mem (snd (createProjectCost st cid tid now input))) = installments (mem st)"
  by (simp add: createProjectCost_def createProjectCost_mem_def on_mem_def installments_on_db
        Let_def createTransactionFallback_def split_beta split: option.splits)

lemma installments_createInstallmentReminder:
  "installments (mem (createInstallmentReminder st uuid now installmentId note))
     = installments (mem st)"
  by (simp add: createInstallmentReminder_def split: backend.splits sum.splits)

lemma installments_runOnce:
  "installments (mem (runOnce st today uuid now)) = installments (mem st)"
proof -
  have "installments (mem (fold (\<lambda>(k, inst) s.
                 createInstallmentReminder s (uuid k) now (i_id inst)
                   (Some (''auto reminder for due '' @ i_dueDate inst))) kis s0))
        = installments (mem s0)" for kis :: "(nat \<times> Installment) list" and s0
    by (induction kis arbitrary: s0) (simp_all add: installments_createInstallmentReminder split_beta)
  then show ?thesis by (simp add: runOnce_def Let_def)
qed

lemma sale_result_keeps:
  "k \<notin> installment_ids (CreateProjectSale sid tid uuid now input) \<Longrightarrow>
     map_of (installments (mem (snd (sale_result st uuid input sale saleId transaction)))) k
       = map_of (installments (mem st)) k"
proof (cases "hasPlan input")
  case True
  assume "k \<notin> installment_ids (CreateProjectSale sid tid uuid now input)"
  with True have "k \<notin> uuid ` {..< nat \<lceil>ip_months (installment_params input saleId)\<rceil>}"
    by (simp add: installment_params_def)
  from createInstallmentsForSale_keeps [OF this, of st] True show ?thesis
    by (simp add: sale_result_def split_beta)
next
  case False
  then show ?thesis by (simp add: sale_result_def)
qed

lemma createProjectSale_keeps:
  assumes "k \<notin> installment_ids (CreateProjectSale sid tid uuid now input)"
  shows "map_of (installments (mem (snd (createProjectSale st sid tid uuid now input)))) k
           = map_of (installments (mem st)) k"
proof (cases "getInitializedMysqlPool st")
  case None
  then show ?thesis
    using sale_result_keeps [OF assms]
    by (simp add: createProjectSale_def Let_def split_beta createTransactionFallback_def)
next
  case (Some db)
  then show ?thesis
    using sale_result_keeps [OF assms]
    by (simp add: createProjectSale_def Let_def split_beta split: sum.splits prod.splits)
qed

lemma payInstallment_state:
  "map_of (installments (mem st)) (pay_id params) = Some inst \<Longrightarrow>
     snd (payInstallment st tid now params)
       = snd (createTransaction
                (if i_paid inst then st
                 else st\<lparr>mem := (mem st)\<lparr>installments :=
                        AList.update (i_id inst)
                          (inst\<lparr>i_paid := True, i_paidAt := Some (pay_date params)\<rparr>)
                          (installments (mem st))\<rparr>\<rparr>)
                tid now (settlement_input params inst))"
  by (auto simp: payInstallment_def Let_def split: prod.splits sum.splits)








lemma second_payment_changes_nothing_but_the_ledger:
  "map_of (installments (mem st)) (pay_id params) = Some inst \<Longrightarrow> i_paid inst \<Longrightarrow>
     installments (mem (snd (payInstallment st transactionId now params))) = installments (mem st)"
  by (simp add: payInstallment_state installments_createTransaction)

section \<open>Installments the memory does not hold\<close>

lemma keyed_by_update:
  "keyed_by ident tbl \<Longrightarrow> ident v = k \<Longrightarrow> keyed_by ident (AList.update k v tbl)"
  by (induction tbl) (auto simp: keyed_by_def)

lemma keyed_by_lookup:
  "keyed_by ident tbl \<Longrightarrow> map_of tbl k = Some v \<Longrightarrow> ident v = k"
  by (induction tbl) (auto simp: keyed_by_def split: if_splits)

lemma installment_rounds_keyed:
  "keyed_by i_id (installments (mem st)) \<Longrightarrow>
     keyed_by i_id (installments (mem (snd (foldl (installment_round uuid params) (acc, st) ns))))"
proof (induction ns arbitrary: acc st)
  case Nil
  then show ?case by simp
next
  case (Cons i ns)
  obtain acc1 st1 where r: "installment_round uuid params (acc, st) i = (acc1, st1)"
    by (cases "installment_round uuid params (acc, st) i")
  have "keyed_by i_id (installments (mem st1))"
    using r Cons.prems
    by (auto simp: installment_round_def Let_def mem_persist_installment intro: keyed_by_update)
  then show ?case using Cons.IH [of st1 acc1] r by simp
qed

lemma createInstallmentsForSale_keyed:
  "keyed_by i_id (installments (mem st)) \<Longrightarrow>
     keyed_by i_id (installments (mem (snd (createInstallmentsForSale st uuid params))))"
  using installment_rounds_keyed [of st uuid params "[]" "[0 ..< nat \<lceil>ip_months params\<rceil>]"]
  by (simp add: createInstallmentsForSale_def split_beta)

lemma sale_result_keyed:
  "keyed_by i_id (installments (mem st)) \<Longrightarrow>
     keyed_by i_id (installments (mem (snd (sale_result st uuid input sale saleId transaction))))"
  by (simp add: sale_result_def split_beta createInstallmentsForSale_keyed)

lemma createProjectSale_keyed:
  assumes "keyed_by i_id (installments (mem st))"
  shows "keyed_by i_id (installments (mem (snd (createProjectSale st sid tid uuid now input))))"
proof (cases "getInitializedMysqlPool st")
  case None
  then show ?thesis
    using assms
    by (simp add: createProjectSale_def Let_def split_beta createTransactionFallback_def
          sale_result_keyed)
next
  case (Some db)
  then show ?thesis
    using assms
    by (simp add: createProjectSale_def Let_def split_beta sale_result_keyed
          split: sum.splits prod.splits)
qed

lemma payInstallment_unknown_stays:
  assumes wf: "keyed_by i_id (installments (mem st))"
    and absent: "map_of (installments (mem st)) k = None"
  shows "keyed_by i_id (installments (mem (snd (payInstallment st tid now params))))
       \<and> map_of (installments (mem (snd (payInstallment st tid now params)))) k = None"
proof (cases "map_of (installments (mem st)) (pay_id params)")
  case None
  then show ?thesis using wf absent by (simp add: payInstallment_def)
next
  case (Some inst)
  have key: "i_id inst = pay_id params" using keyed_by_lookup [OF wf Some] .
  have "pay_id params \<noteq> k" using Some absent by auto
  then show ?thesis
    using wf absent key
    by (simp add: payInstallment_state [OF Some] installments_createTransaction
          AList.update_conv' keyed_by_update)
qed

lemma exec_unknown_stays:
  assumes wf: "keyed_by i_id (installments (mem st))"
    and absent: "map_of (installments (mem st)) k = None"
    and other: "k \<notin> installment_ids op"
  shows "keyed_by i_id (installments (mem (exec op st)))
       \<and> map_of (installments (mem (exec op st))) k = None"
proof (cases op)
  case (CreateProjectSale sid tid uuid now input)
  then show ?thesis
    using wf absent other createProjectSale_keeps [of k sid tid uuid now input st]
      createProjectSale_keyed [OF wf]
    by simp
next
  case (PayInstallment tid now params)
  then show ?thesis using payInstallment_unknown_stays [OF wf absent] by simp
qed (use wf absent in \<open>simp_all add: installments_createTransaction
      installments_approveTransaction installments_deleteTransaction
      installments_createInventoryItem installments_deleteInventoryItem
      installments_recordInventoryReceipt installments_recordInventoryIssue
      installments_createProject installments_deleteProject installments_createProjectCost
      installments_createInstallmentReminder installments_runOnce\<close>)

lemma run_ops_unknown_stays:
  "keyed_by i_id (installments (mem st)) \<Longrightarrow> map_of (installments (mem st)) k = None \<Longrightarrow>
   \<forall>op \<in> set ops. k \<notin> installment_ids op \<Longrightarrow>
     keyed_by i_id (installments (mem (run_ops ops st)))
     \<and> map_of (installments (mem (run_ops ops st))) k = None"
  unfolding run_ops_def
proof (induction ops arbitrary: st)
  case Nil
  then show ?case by simp
next
  case (Cons op ops)
  have "keyed_by i_id (installments (mem (exec op st)))
       \<and> map_of (installments (mem (exec op st))) k = None"
    using exec_unknown_stays [of st k op] Cons.prems by simp
  then show ?case using Cons.IH [of "exec op st"] Cons.prems by simp
qed

text \<open>
  C10. \<open>payInstallment\<close> looks the installment up in \<open>fallbackStore.installments\<close>
  only: for an id that map does not hold it throws \<open>Installment not found\<close> and
  changes nothing, whatever the backend and whatever the database holds. No operation
  of the store brings such an id into the map (the map holds its installments under
  their ids, and new ones get new ids), so the installment is refused after every
  sequence of operations as well.
\<close>

theorem payInstallment_reads_memory_only:
  assumes absent: "map_of (installments (mem st)) (pay_id params) = None"
  shows "payInstallment st transactionId now params = (Inl InstallmentNotFound, st)
       \<and> (keyed_by i_id (installments (mem st)) \<longrightarrow>
            (\<forall>ops. (\<forall>op \<in> set ops. pay_id params \<notin> installment_ids op) \<longrightarrow>
               payInstallment (run_ops ops st) transactionId now params
                 = (Inl InstallmentNotFound, run_ops ops st)))"
proof -
  have refused: "payInstallment s transactionId now params = (Inl InstallmentNotFound, s)"
    if "map_of (installments (mem s)) (pay_id params) = None" for s
    using that by (simp add: payInstallment_def)
  have "payInstallment (run_ops ops st) transactionId now params
          = (Inl InstallmentNotFound, run_ops ops st)"
    if "keyed_by i_id (installments (mem st))"
      and "\<forall>op \<in> set ops. pay_id params \<notin> installment_ids op" for ops
    using refused run_ops_unknown_stays [OF that(1) absent that(2)] by blast
  then show ?thesis using refused [OF absent] by blast
qed

text \<open>
  The installment \<open>I1\<close> is a row of \<open>project_installments\<close>, unpaid and due, but not
  in memory: it cannot be settled, before or after a run of the sweep (which finds it
  and records a reminder).
\<close>

theorem payInstallment_reads_memory_only_witness:
  "map_of (installments (mem database_only)) (pay_id pay_I1) = None
   \<and> keyed_by i_id (installments (mem database_only))
   \<and> getDueInstallments database_only (Some ''2024-01-02'') ''2024-01-02'' = [installment_I1]
   \<and> payInstallment database_only ''t-1'' ''now'' pay_I1 = (Inl InstallmentNotFound, database_only)
   \<and> payInstallment (run_ops [RunOnce ''2024-01-02'' example_uuid ''now''] database_only)
        ''t-1'' ''now'' pay_I1
       = (Inl InstallmentNotFound, run_ops [RunOnce ''2024-01-02'' example_uuid ''now''] database_only)"
proof -
  have h: "map_of (installments (mem database_only)) (pay_id pay_I1) = None"
    by (simp add: database_only_def empty_store_def)
  have w: "keyed_by i_id (installments (mem database_only))"
    by (simp add: database_only_def empty_store_def keyed_by_def)
  have d: "getDueInstallments database_only (Some ''2024-01-02'') ''2024-01-02'' = [installment_I1]"
    by (simp add: getDueInstallments_def database_only_def empty_db_def values_of_def
          due_rows_def installment_I1_def mapInstallmentRow_def formatDate_def)
  have o: "\<forall>op \<in> set [RunOnce ''2024-01-02'' example_uuid ''now'']. pay_id pay_I1 \<notin> installment_ids op"
    by simp
  show ?thesis
    using h w d o payInstallment_reads_memory_only [OF h, of "''t-1''" "''now''"]
    by blast
qed

section \<open>Reminders\<close>






lemma createTransaction_leaves_installment_rows:
  "pool st = Ready db \<Longrightarrow>
     \<exists>db1. pool (snd (createTransaction st uuid now input)) = Ready db1
           \<and> tbl_project_installments db1 = tbl_project_installments db"
  by (auto simp: createTransaction_def getInitializedMysqlPool_def on_db_def
        insertTransactionDb_def bind_err_def sql_insert_def split: option.splits)

lemma payInstallment_leaves_installment_rows:
  assumes "pool st = Ready db"
  shows "\<exists>db1. pool (snd (payInstallment st tid now params)) = Ready db1
           \<and> tbl_project_installments db1 = tbl_project_installments db"
proof (cases "map_of (installments (mem st)) (pay_id params)")
  case None
  then show ?thesis using assms by (simp add: payInstallment_def)
next
  case (Some inst)
  show ?thesis
    unfolding payInstallment_state [OF Some]
    by (rule createTransaction_leaves_installment_rows) (simp add: assms)
qed

text \<open>
  \<open>payInstallment\<close> writes the flag to memory only, so on a database a settled
  installment keeps \<open>paid = 0\<close> in its row and the sweep goes on finding it.
\<close>

lemma settled_installment_is_still_due_in_the_database:
  "paid_in (snd (payInstallment both_know_I1 ''t-1'' ''now'' pay_I1)) ''I1''
   \<and> getDueInstallments (snd (payInstallment both_know_I1 ''t-1'' ''now'' pay_I1)) None
         ''2024-01-06'' = [installment_I1]"
proof -
  let ?st = "snd (payInstallment both_know_I1 ''t-1'' ''now'' pay_I1)"
  have s: "map_of (installments (mem both_know_I1)) (pay_id pay_I1) = Some installment_I1"
    by (simp add: both_know_I1_def empty_store_def pay_I1_def)
  have "installments (mem ?st)
          = AList.update (i_id installment_I1)
              (installment_I1\<lparr>i_paid := True, i_paidAt := Some (pay_date pay_I1)\<rparr>)
              (installments (mem both_know_I1))"
    unfolding payInstallment_state [OF s]
    by (simp add: installments_createTransaction installment_I1_def)
  then have p: "paid_in ?st ''I1''"
    by (simp add: paid_in_def AList.update_conv' installment_I1_def)
  have "pool both_know_I1
          = Ready (empty_db\<lparr>tbl_projects := [(''P1'', project_P1)],
                            tbl_project_sales := [(''S1'', sale_S1)],
                            tbl_project_installments := [(''I1'', installment_I1)]\<rparr>)"
    by (simp add: both_know_I1_def)
  from payInstallment_leaves_installment_rows [OF this, of "''t-1''" "''now''" pay_I1]
  obtain db1 where r: "pool ?st = Ready db1"
    "tbl_project_installments db1 = [(''I1'', installment_I1)]"
    by (auto simp: empty_db_def)
  have "getDueInstallments ?st None ''2024-01-06'' = [installment_I1]"
    unfolding getDueInstallments_def
    by (simp add: r values_of_def due_rows_def)
       (simp add: installment_I1_def mapInstallmentRow_def formatDate_def)
  with p show ?thesis by simp
qed

section \<open>Replaying queued mutations\<close>

lemma retry_later_append: "retry_later acc item = acc @ retry_later [] item"
  by (simp add: retry_later_def Let_def)

lemma replay_fst: "fst (replay env n (acc, s) item) = acc @ kept env n item"
  using retry_later_append [of acc item]
  by (simp add: replay_def kept_def Let_def split: fetch_outcome.splits)

lemma replay_fetched: "fetched (snd (replay env n (acc, s) item)) = fetched s @ [item]"
  by (simp add: replay_def Let_def split: fetch_outcome.splits)

lemma replays_fst:
  "fst (foldl (replay env n) (acc, s) q) = acc @ concat (map (kept env n) q)"
proof (induction q arbitrary: acc s)
  case Nil
  then show ?case by simp
next
  case (Cons item q)
  obtain acc1 s1 where r: "replay env n (acc, s) item = (acc1, s1)"
    by (cases "replay env n (acc, s) item")
  then have "acc1 = acc @ kept env n item"
    using replay_fst [of env n acc s item] by simp
  then show ?case using Cons.IH [of acc1 s1] r by simp
qed

lemma replays_fetched:
  "fetched (snd (foldl (replay env n) (acc, s) q)) = fetched s @ q"
proof (induction q arbitrary: acc s)
  case Nil
  then show ?case by simp
next
  case (Cons item q)
  obtain acc1 s1 where r: "replay env n (acc, s) item = (acc1, s1)"
    by (cases "replay env n (acc, s) item")
  then have "fetched s1 = fetched s @ [item]"
    using replay_fetched [of env n acc s item] by simp
  then show ?case using Cons.IH [of acc1 s1] r by simp
qed

lemma drain_pass_queue: "queue (drain_pass env n os) = concat (map (kept env n) (queue os))"
  using replays_fst [of env n "[]" os "queue os"]
  by (simp add: drain_pass_def split_beta)

lemma drain_pass_fetched: "fetched (drain_pass env n os) = fetched os @ queue os"
  using replays_fetched [of env n "[]" os "queue os"]
  by (simp add: drain_pass_def split_beta)

lemma kept_ids: "r \<in> set (kept env n item) \<Longrightarrow> q_id r = q_id item"
  by (auto simp: kept_def retry_later_def Let_def split: fetch_outcome.splits if_splits)

lemma kept_retryCount: "r \<in> set (kept env n item) \<Longrightarrow> q_retryCount r = q_retryCount item + 1"
  by (auto simp: kept_def retry_later_def Let_def split: fetch_outcome.splits if_splits)

lemma kept_client_error:
  "env_fetch env n item = Response status \<Longrightarrow> 400 \<le> status \<Longrightarrow> status < 500 \<Longrightarrow> kept env n item = []"
  by (simp add: kept_def)

lemma drain_pass_ids:
  "r \<in> set (queue (drain_pass env n os)) \<Longrightarrow>
     \<exists>item \<in> set (queue os). kept env n item \<noteq> [] \<and> q_id r = q_id item"
proof -
  assume "r \<in> set (queue (drain_pass env n os))"
  then obtain item where item: "item \<in> set (queue os)" "r \<in> set (kept env n item)"
    by (auto simp: drain_pass_queue)
  then have "kept env n item \<noteq> []" "q_id r = q_id item"
    using kept_ids [of r env n item] by auto
  with item(1) show ?thesis by blast
qed

lemma processQueue_unqueued:
  "\<forall>r \<in> set (queue os). q_id r \<noteq> ident \<Longrightarrow>
     attempts ident (processQueue env n os) = attempts ident os
     \<and> (\<forall>r \<in> set (queue (processQueue env n os)). q_id r \<noteq> ident)"
proof (induction env n os rule: processQueue.induct)
  case (1 env n os)
  show ?case
  proof (cases "env_online env n \<and> queue os \<noteq> []")
    case False
    then have "processQueue env n os = os"
      by (auto simp: processQueue.simps [of env n os])
    then show ?thesis using "1.prems" by simp
  next
    case True
    let ?os1 = "drain_pass env n os"
    have none: "filter (\<lambda>r. q_id r = ident) (queue os) = []"
      using "1.prems" by (simp add: filter_empty_conv)
    have a1: "attempts ident ?os1 = attempts ident os"
      by (simp add: attempts_def drain_pass_fetched none)
    have notin: "\<forall>r \<in> set (queue ?os1). q_id r \<noteq> ident"
    proof
      fix r assume "r \<in> set (queue ?os1)"
      then obtain item where "item \<in> set (queue os)" "q_id r = q_id item"
        using drain_pass_ids by blast
      then show "q_id r \<noteq> ident" using "1.prems" by simp
    qed
    show ?thesis
    proof (cases "queue ?os1 = []")
      case True
      with \<open>env_online env n \<and> queue os \<noteq> []\<close> have "processQueue env n os = ?os1"
        by (simp add: processQueue.simps [of env n os] Let_def)
      then show ?thesis using a1 notin by simp
    next
      case False
      with \<open>env_online env n \<and> queue os \<noteq> []\<close> have
        "processQueue env n os = processQueue env (Suc n) ?os1"
        by (simp add: processQueue.simps [of env n os] Let_def)
      moreover have "attempts ident (processQueue env (Suc n) ?os1) = attempts ident ?os1
          \<and> (\<forall>r \<in> set (queue (processQueue env (Suc n) ?os1)). q_id r \<noteq> ident)"
        using "1.IH" [of ?os1] True False notin by simp
      ultimately show ?thesis using a1 by simp
    qed
  qed
qed

lemma count_distinct_ids:
  "distinct (map q_id q) \<Longrightarrow> x \<in> set q \<Longrightarrow> length (filter (\<lambda>r. q_id r = q_id x) q) = 1"
proof (induction q)
  case Nil
  then show ?case by simp
next
  case (Cons a q)
  show ?case
  proof (cases "q_id a = q_id x")
    case True
    then have "\<forall>r \<in> set q. q_id r \<noteq> q_id x" using Cons.prems(1) by (force simp: image_iff)
    then have "filter (\<lambda>r. q_id r = q_id x) q = []" by (simp add: filter_empty_conv)
    with True show ?thesis by simp
  next
    case False
    then have "x \<in> set q" using Cons.prems(2) by auto
    with Cons False show ?thesis by simp
  qed
qed

text \<open>
  C7. A queued request whose replay is answered with a status from 400 to 499 is sent
  that once and never again: the round of the loop pushes nothing onto \<open>remaining\<close>
  for it and touches nothing but the record of the call (no copy with a raised retry
  count, no cache entry removed), the queue saved after the pass does not hold its id,
  nor does the queue at the end of the drain, and over all passes of the drain exactly
  one \<open>fetch\<close> is made for it. The ids of the queued requests are distinct.
\<close>

theorem client_error_dropped_after_one_attempt:
  assumes online: "env_online env n"
    and ids: "distinct (map q_id (queue os))"
    and x: "x \<in> set (queue os)"
    and resp: "env_fetch env n x = Response status"
    and lo: "400 \<le> status" and hi: "status < 500"
  shows "(\<forall>remaining s. replay env n (remaining, s) x
                            = (remaining, s\<lparr>fetched := fetched s @ [x]\<rparr>))
       \<and> (\<forall>r \<in> set (queue (drain_pass env n os)). q_id r \<noteq> q_id x)
       \<and> (\<forall>r \<in> set (queue (processQueue env n os)). q_id r \<noteq> q_id x)
       \<and> attempts (q_id x) (processQueue env n os) = attempts (q_id x) os + 1"
proof -
  let ?os1 = "drain_pass env n os"
  have round: "\<forall>remaining s. replay env n (remaining, s) x
                            = (remaining, s\<lparr>fetched := fetched s @ [x]\<rparr>)"
    using resp lo hi by (simp add: replay_def Let_def res_ok_def)
  have gone: "kept env n x = []" using resp lo hi by (rule kept_client_error)
  have notin: "\<forall>r \<in> set (queue ?os1). q_id r \<noteq> q_id x"
  proof
    fix r assume r: "r \<in> set (queue ?os1)"
    then obtain item where item: "item \<in> set (queue os)" "kept env n item \<noteq> []" "q_id r = q_id item"
      using drain_pass_ids by blast
    show "q_id r \<noteq> q_id x"
    proof
      assume "q_id r = q_id x"
      with item ids x have "item = x" by (metis distinct_map inj_on_def)
      with item gone show False by simp
    qed
  qed
  have a1: "attempts (q_id x) ?os1 = attempts (q_id x) os + 1"
    using count_distinct_ids [OF ids x] by (simp add: attempts_def drain_pass_fetched)
  have ne: "queue os \<noteq> []" using x by auto
  have unfold: "processQueue env n os = (if queue ?os1 \<noteq> [] then processQueue env (Suc n) ?os1 else ?os1)"
    using online ne by (simp add: processQueue.simps [of env n os] Let_def)
  have "attempts (q_id x) (processQueue env n os) = attempts (q_id x) ?os1
      \<and> (\<forall>r \<in> set (queue (processQueue env n os)). q_id r \<noteq> q_id x)"
    using processQueue_unqueued [OF notin, of env "Suc n"] notin unfold by auto
  then show ?thesis using round notin a1 by simp
qed


text \<open>
  One queued request and a server that answers 400: one call, and the queue is empty of
  it.
\<close>

theorem client_error_dropped_after_one_attempt_witness:
  "env_online rejecting_server 0
   \<and> distinct (map q_id (queue one_queued))
   \<and> rejected_request \<in> set (queue one_queued)
   \<and> env_fetch rejecting_server 0 rejected_request = Response 400
   \<and> (400::nat) \<le> 400 \<and> (400::nat) < 500
   \<and> replay rejecting_server 0 ([], one_queued) rejected_request
        = ([], one_queued\<lparr>fetched := fetched one_queued @ [rejected_request]\<rparr>)
   \<and> list_all (\<lambda>r. q_id r \<noteq> ''m1'') (queue (drain_pass rejecting_server 0 one_queued))
   \<and> list_all (\<lambda>r. q_id r \<noteq> ''m1'') (queue (processQueue rejecting_server 0 one_queued))
   \<and> attempts ''m1'' one_queued = 0
   \<and> attempts ''m1'' (processQueue rejecting_server 0 one_queued) = 1"
proof -
  have h1: "env_online rejecting_server 0" by (simp add: rejecting_server_def)
  have h2: "distinct (map q_id (queue one_queued))" by (simp add: one_queued_def)
  have h3: "rejected_request \<in> set (queue one_queued)" by (simp add: one_queued_def)
  have h4: "env_fetch rejecting_server 0 rejected_request = Response 400"
    by (simp add: rejecting_server_def)
  have h5: "(400::nat) \<le> 400" and h6: "(400::nat) < 500" by simp_all
  have h7: "attempts ''m1'' one_queued = 0"
    by (simp add: attempts_def one_queued_def)
  have m1: "q_id rejected_request = ''m1''" by (simp add: rejected_request_def)
  show ?thesis
    using h1 h2 h3 h4 h5 h6 h7
      client_error_dropped_after_one_attempt [OF h1 h2 h3 h4 h5 h6]
    by (simp add: list_all_iff m1)
qed

end
